theory Spec2Isabelle
  imports Complex_Main "HOL-Library.Sublist" "HOL-Library.Monad_Syntax"
begin

section \<open>Data model (src/MFA/src/intents/types.ts)\<close>

text \<open>
  JavaScript numbers are modelled as \<^typ>\<open>real\<close>, the value of the double. JavaScript
  strings are modelled as \<^typ>\<open>string\<close>, a list of 8-bit characters read as the code units
  U+0000 .. U+00FF; on this range \<open>toLowerCase\<close> acts on each code unit separately. Code
  units above U+00FF are outside the model.
\<close>

datatype IntentType =
    termin_anfragen
  | termin_verschieben
  | termin_absagen
  | rezept_anfordern
  | arbeitsunfaehigkeit
  | befundauskunft
  | allgemeine_info
  | notfall
  | laborbefund
  | ueberweisung

datatype NextAction =
    slots_vervollstaendigen
  | termin_vorschlagen
  | rueckfrage_senden
  | eskalieren
  | notfall_protokoll
  | sofort_termin

datatype PriorityLevel = prio_normal | prio_urgent | prio_emergency
datatype Sentiment = positiv | neutral | negativ
datatype Dringlichkeit = hoch | normal | niedrig
datatype Versicherung = gesetzlich | privat

text \<open>A field of type \<open>T | null\<close> is an option; \<open>None\<close> is \<open>null\<close>. The field
  \<open>notes\<close> of an item is \<open>item_notes\<close> here, and \<open>email_meta.language\<close>, which has the
  single value \<open>"de"\<close>, is left out.\<close>

record IntentSlots =
  datum :: "string option"
  zeit :: "string option"
  dringlichkeit :: "Dringlichkeit option"
  grund :: "string option"
  person_name :: "string option"
  geburtsdatum :: "string option"
  versicherung :: "Versicherung option"
  medikament :: "string option"
  symptome :: "string option"
  kontakt :: "string option"
  freie_form :: "string option"

record IntentItem =
  intent :: IntentType
  confidence :: real
  slots :: IntentSlots
  next_action :: NextAction
  item_notes :: string

record EmailMeta =
  received_at_iso :: "string option"
  priority_indicator :: "PriorityLevel option"

record Overall =
  top_intent :: IntentType
  max_confidence :: real
  multi_intent :: bool
  sentiment :: "Sentiment option"
  requires_human :: bool

record IntentResponse =
  email_meta :: EmailMeta
  items :: "IntentItem list"
  overall :: Overall

definition EMERGENCY_KEYWORDS :: "string list" where
  "EMERGENCY_KEYWORDS =
     [''notfall'', ''dringend'', ''sofort'', ''akut'', ''schmerzen'', ''atemnot'',
      ''brustschmerzen'', ''herzinfarkt'', ''schlaganfall'', ''bewusstlos'',
      ''blutung'', ''vergiftung'', ''unfall'', ''sturz'', ''kollaps'']"

section \<open>String primitives\<close>

text \<open>\<open>String.prototype.toLowerCase\<close> on the code units U+0000 .. U+00FF: the letters
  A-Z and the Latin-1 capitals U+00C0 .. U+00DE (without the multiplication sign U+00D7)
  move up by 32, every other code unit stays.\<close>

definition lower_char :: "char \<Rightarrow> char" where
  "lower_char c =
     (let n = (of_char c :: nat)
      in if (65 \<le> n \<and> n \<le> 90) \<or> (192 \<le> n \<and> n \<le> 214) \<or> (216 \<le> n \<and> n \<le> 222)
         then char_of (n + 32) else c)"

definition toLowerCase :: "string \<Rightarrow> string" where
  "toLowerCase s = map lower_char s"

text \<open>\<open>s.includes(t)\<close> (the name is an Isabelle keyword): \<open>t\<close> occurs in \<open>s\<close> as a contiguous run of code units.\<close>

fun str_includes :: "string \<Rightarrow> string \<Rightarrow> bool" where
  "str_includes [] t = (t = [])"
| "str_includes (c # cs) t = (prefix t (c # cs) \<or> str_includes cs t)"

text \<open>\<open>xs.join(sep)\<close>.\<close>

fun join :: "string \<Rightarrow> string list \<Rightarrow> string" where
  "join sep [] = []"
| "join sep [x] = x"
| "join sep (x # y # ys) = x @ sep @ join sep (y # ys)"

text \<open>White space and line terminators removed by \<open>trim\<close>, within U+0000 .. U+00FF:
  TAB, LF, VT, FF, CR, SPACE and NO-BREAK SPACE.\<close>

definition is_js_space :: "char \<Rightarrow> bool" where
  "is_js_space c = ((of_char c :: nat) \<in> {9, 10, 11, 12, 13, 32, 160})"

definition trim :: "string \<Rightarrow> string" where
  "trim s = rev (dropWhile is_js_space (rev (dropWhile is_js_space s)))"

text \<open>\<open>s.substring(a, b)\<close>: the arguments are swapped when \<open>a > b\<close>.\<close>

definition substring :: "nat \<Rightarrow> nat \<Rightarrow> string \<Rightarrow> string" where
  "substring a b s = take (max a b - min a b) (drop (min a b) s)"

section \<open>Number primitives\<close>

text \<open>A number is the real value of an IEEE-754 double. Comparing two numbers and taking
  the larger of two is exact. Adding, subtracting, multiplying and dividing round the
  result to a double; what the runtime computes there is a parameter of the model, so
  that no theorem depends on how a result is rounded. Counts and minutes are small
  integers, whose arithmetic is exact.\<close>

record Arithmetic =
  num_add :: "real \<Rightarrow> real \<Rightarrow> real"
  num_sub :: "real \<Rightarrow> real \<Rightarrow> real"
  num_mul :: "real \<Rightarrow> real \<Rightarrow> real"
  num_div :: "real \<Rightarrow> real \<Rightarrow> real"

text \<open>The decimal digits of a count inside a template string.\<close>

definition decimal_digit :: "nat \<Rightarrow> char" where
  "decimal_digit d = char_of (d + 48)"

fun string_of_nat :: "nat \<Rightarrow> string" where
  "string_of_nat n =
     (let last_digit = decimal_digit (n mod 10)
      in if 10 \<le> n then string_of_nat (n div 10) @ [last_digit] else [last_digit])"

section \<open>Values thrown\<close>

text \<open>What a \<open>catch\<close> block of the source does with the value it catches is
  \<open>error instanceof Error ? error.message : String(error)\<close>. Three kinds of value behave
  differently there: an instance of \<open>Error\<close> with its message; another value that
  \<open>String\<close> converts; and a value that \<open>String\<close> cannot convert, such as
  \<open>Object.create(null)\<close>, for which the conversion itself throws a \<open>TypeError\<close>.\<close>

datatype Thrown =
    ErrorObject string
  | Printable string
  | Unprintable

definition conversionError :: Thrown where
  "conversionError = ErrorObject ''Cannot convert object to primitive value''"

text \<open>The expression above; \<open>Inl\<close> is what the expression throws.\<close>

fun messageOf :: "Thrown \<Rightarrow> Thrown + string" where
  "messageOf (ErrorObject message) = Inr message"
| "messageOf (Printable s) = Inr s"
| "messageOf Unprintable = Inl conversionError"

section \<open>Gate decisions (src/MFA/src/intents/gates.ts)\<close>

datatype Urgency = high | critical

datatype GateDecision =
    AUTO_PROCESS "IntentItem list" real string
  | ASK_CONFIRM "IntentItem list" string real "string list option"
  | ESCALATE "IntentItem list" string real
  | EMERGENCY "IntentItem list" string Urgency

text \<open>The fields of \<open>GateConfig\<close>. \<open>requiredSlots\<close> is an object indexed by the intent;
  a missing key is \<open>None\<close>.\<close>

record GateConfig =
  autoProcessThreshold :: real
  confirmThreshold :: real
  escalateThreshold :: real
  emergencyKeywords :: "string list"
  requiredSlots :: "IntentType \<Rightarrow> string list option"

fun DEFAULT_requiredSlots :: "IntentType \<Rightarrow> string list option" where
  "DEFAULT_requiredSlots termin_anfragen = Some [''datum'', ''zeit'']"
| "DEFAULT_requiredSlots termin_verschieben = Some [''datum'']"
| "DEFAULT_requiredSlots termin_absagen = Some []"
| "DEFAULT_requiredSlots rezept_anfordern = Some [''medikament'']"
| "DEFAULT_requiredSlots arbeitsunfaehigkeit = Some [''grund'']"
| "DEFAULT_requiredSlots befundauskunft = Some []"
| "DEFAULT_requiredSlots laborbefund = Some []"
| "DEFAULT_requiredSlots ueberweisung = Some [''grund'']"
| "DEFAULT_requiredSlots notfall = Some []"
| "DEFAULT_requiredSlots allgemeine_info = Some []"

definition DEFAULT_CONFIG :: GateConfig where
  "DEFAULT_CONFIG =
     \<lparr> autoProcessThreshold = 0.85,
       confirmThreshold = 0.5,
       escalateThreshold = 0.5,
       emergencyKeywords = EMERGENCY_KEYWORDS,
       requiredSlots = DEFAULT_requiredSlots \<rparr>"

text \<open>The filter predicate of \<open>checkForEmergency\<close>.\<close>

definition isEmergencyItem :: "IntentItem \<Rightarrow> bool" where
  "isEmergencyItem item = (intent item = notfall \<or> next_action item = notfall_protokoll)"

text \<open>\<open>Math.max(...xs)\<close> for the non-empty list \<open>x # xs\<close>; the source calls it only behind
  the test \<open>emergencyItems.length > 0\<close>.\<close>

definition math_max :: "real \<Rightarrow> real list \<Rightarrow> real" where
  "math_max x xs = fold max xs x"

definition foundKeywords :: "GateConfig \<Rightarrow> string \<Rightarrow> string list" where
  "foundKeywords cfg originalText =
     filter (\<lambda>keyword. str_includes (toLowerCase originalText) (toLowerCase keyword))
       (emergencyKeywords cfg)"

definition criticalKeywords :: "string list" where
  "criticalKeywords = [''herzinfarkt'', ''schlaganfall'', ''bewusstlos'', ''atemnot'']"

definition keywordItem :: "string \<Rightarrow> string list \<Rightarrow> IntentItem" where
  "keywordItem originalText found =
     \<lparr> intent = notfall,
       confidence = 0.9,
       slots = \<lparr> datum = None, zeit = None, dringlichkeit = Some hoch,
                 grund = Some (''Notfall-Keywords erkannt: '' @ join '', '' found),
                 person_name = None, geburtsdatum = None, versicherung = None,
                 medikament = None,
                 symptome = Some (join '', '' found),
                 kontakt = None,
                 freie_form = Some (substring 0 200 originalText) \<rparr>,
       next_action = notfall_protokoll,
       item_notes = ''Automatische Notfall-Erkennung durch Keywords: '' @ join '', '' found \<rparr>"

text \<open>\<open>checkForEmergency\<close>; the optional parameter \<open>originalText\<close> is an option, and
  \<open>if (originalText)\<close> is false for \<open>undefined\<close> and for the empty string.\<close>

definition checkForEmergency :: "GateConfig \<Rightarrow> IntentResponse \<Rightarrow> string option \<Rightarrow> GateDecision option" where
  "checkForEmergency cfg resp originalText =
     (case filter isEmergencyItem (items resp) of
        e # es \<Rightarrow>
          (let highestConfidence = math_max (confidence e) (map confidence es)
           in Some (EMERGENCY (e # es) ''Notfall-Intent erkannt''
                      (if highestConfidence > 0.8 then critical else high)))
      | [] \<Rightarrow>
          (case originalText of
             None \<Rightarrow> None
           | Some txt \<Rightarrow>
               if txt = [] then None
               else
                 (let found = foundKeywords cfg txt
                  in if length found > 0
                     then Some (EMERGENCY [keywordItem txt found]
                                  (''Notfall-Keywords erkannt: '' @ join '', '' found)
                                  (if list_ex (\<lambda>kw. kw \<in> set criticalKeywords) found
                                   then critical else high))
                     else None)))"

text \<open>The value of \<open>item.slots[name]\<close>: \<open>null\<close> or \<open>undefined\<close>, a string (an enumeration
  value is its string), or a member inherited from \<open>Object.prototype\<close>, which is neither
  falsy nor a string.\<close>

datatype SlotValue = SlotNull | SlotString string | SlotInherited

definition objectPrototypeNames :: "string list" where
  "objectPrototypeNames =
     [''constructor'', ''hasOwnProperty'', ''isPrototypeOf'', ''propertyIsEnumerable'',
      ''toLocaleString'', ''toString'', ''valueOf'', ''__defineGetter__'',
      ''__defineSetter__'', ''__lookupGetter__'', ''__lookupSetter__'', ''__proto__'']"

fun string_of_Dringlichkeit :: "Dringlichkeit \<Rightarrow> string" where
  "string_of_Dringlichkeit hoch = ''hoch''"
| "string_of_Dringlichkeit normal = ''normal''"
| "string_of_Dringlichkeit niedrig = ''niedrig''"

fun string_of_Versicherung :: "Versicherung \<Rightarrow> string" where
  "string_of_Versicherung gesetzlich = ''gesetzlich''"
| "string_of_Versicherung privat = ''privat''"

definition of_nullable :: "string option \<Rightarrow> SlotValue" where
  "of_nullable v = (case v of None \<Rightarrow> SlotNull | Some s \<Rightarrow> SlotString s)"

definition slot_lookup :: "IntentSlots \<Rightarrow> string \<Rightarrow> SlotValue" where
  "slot_lookup s name =
     (if name = ''datum'' then of_nullable (datum s)
      else if name = ''zeit'' then of_nullable (zeit s)
      else if name = ''dringlichkeit''
        then of_nullable (map_option string_of_Dringlichkeit (dringlichkeit s))
      else if name = ''grund'' then of_nullable (grund s)
      else if name = ''person_name'' then of_nullable (person_name s)
      else if name = ''geburtsdatum'' then of_nullable (geburtsdatum s)
      else if name = ''versicherung''
        then of_nullable (map_option string_of_Versicherung (versicherung s))
      else if name = ''medikament'' then of_nullable (medikament s)
      else if name = ''symptome'' then of_nullable (symptome s)
      else if name = ''kontakt'' then of_nullable (kontakt s)
      else if name = ''freie_form'' then of_nullable (freie_form s)
      else if name \<in> set objectPrototypeNames then SlotInherited
      else SlotNull)"

text \<open>The test \<open>!slotValue || (typeof slotValue === 'string' && slotValue.trim() === '')\<close>.\<close>

fun slotMissing :: "SlotValue \<Rightarrow> bool" where
  "slotMissing SlotNull = True"
| "slotMissing (SlotString s) = (s = [] \<or> trim s = [])"
| "slotMissing SlotInherited = False"

definition requiredSlotsOf :: "GateConfig \<Rightarrow> IntentType \<Rightarrow> string list" where
  "requiredSlotsOf cfg i = (case requiredSlots cfg i of None \<Rightarrow> [] | Some rs \<Rightarrow> rs)"

text \<open>\<open>Set.add\<close> keeps the insertion order and ignores a member already present.\<close>

definition set_add :: "string \<Rightarrow> string list \<Rightarrow> string list" where
  "set_add x acc = (if x \<in> set acc then acc else acc @ [x])"

definition addMissingOfItem :: "GateConfig \<Rightarrow> IntentItem \<Rightarrow> string list \<Rightarrow> string list" where
  "addMissingOfItem cfg item acc =
     fold (\<lambda>requiredSlot acc'.
             if slotMissing (slot_lookup (slots item) requiredSlot)
             then set_add requiredSlot acc' else acc')
          (requiredSlotsOf cfg (intent item)) acc"

definition findMissingSlots :: "GateConfig \<Rightarrow> IntentItem list \<Rightarrow> string list" where
  "findMissingSlots cfg its = fold (addMissingOfItem cfg) its []"

text \<open>\<open>gate\<close>. The module variable \<open>gateConfig\<close> is the parameter \<open>cfg\<close>. The reasons
  contain the letter u-umlaut, the code unit U+00FC.\<close>

definition gate :: "GateConfig \<Rightarrow> IntentResponse \<Rightarrow> string option \<Rightarrow> GateDecision" where
  "gate cfg resp originalText =
     (case checkForEmergency cfg resp originalText of
        Some emergencyDecision \<Rightarrow> emergencyDecision
      | None \<Rightarrow>
          if requires_human (overall resp)
          then ESCALATE (items resp) ''LLM empfiehlt menschliche Bearbeitung''
                 (max_confidence (overall resp))
          else
            (let c = max_confidence (overall resp)
             in if c \<ge> autoProcessThreshold cfg
                then (let missingSlots = findMissingSlots cfg (items resp)
                      in if length missingSlots = 0
                         then AUTO_PROCESS (items resp) c
                                (''Hohe Konfidenz und alle Slots verf'' @ [char_of (252::nat)] @ ''gbar'')
                         else ASK_CONFIRM (items resp)
                                ''Hohe Konfidenz, aber fehlende Informationen'' c
                                (Some missingSlots))
                else if c \<ge> confirmThreshold cfg
                then (let missingSlots = findMissingSlots cfg (items resp)
                      in ASK_CONFIRM (items resp) ''Mittlere Sicherheit bei der Erkennung'' c
                           (if length missingSlots > 0 then Some missingSlots else None))
                else ESCALATE (items resp) ''Niedrige Sicherheit bei der Erkennung'' c))"

section \<open>Multi-intent handling (src/unnamed/part_003)\<close>

record IntentBucket =
  bucket_intent :: IntentType
  bucket_items :: "IntentItem list"
  bucket_confidence :: real
  priority :: int

record ProcessingPlan =
  buckets :: "IntentBucket list"
  totalItems :: nat
  multiIntent :: bool
  processingOrder :: "IntentType list"
  estimatedDuration :: int

text \<open>The two tables are objects indexed by the intent; every intent has an entry.\<close>

fun INTENT_PRIORITIES :: "IntentType \<Rightarrow> int option" where
  "INTENT_PRIORITIES notfall = Some 1"
| "INTENT_PRIORITIES termin_anfragen = Some 2"
| "INTENT_PRIORITIES rezept_anfordern = Some 3"
| "INTENT_PRIORITIES arbeitsunfaehigkeit = Some 4"
| "INTENT_PRIORITIES befundauskunft = Some 5"
| "INTENT_PRIORITIES termin_verschieben = Some 6"
| "INTENT_PRIORITIES termin_absagen = Some 7"
| "INTENT_PRIORITIES laborbefund = Some 8"
| "INTENT_PRIORITIES ueberweisung = Some 9"
| "INTENT_PRIORITIES allgemeine_info = Some 10"

fun PROCESSING_DURATION :: "IntentType \<Rightarrow> int option" where
  "PROCESSING_DURATION notfall = Some 0"
| "PROCESSING_DURATION termin_anfragen = Some 2"
| "PROCESSING_DURATION termin_verschieben = Some 1"
| "PROCESSING_DURATION termin_absagen = Some 1"
| "PROCESSING_DURATION rezept_anfordern = Some 1"
| "PROCESSING_DURATION arbeitsunfaehigkeit = Some 3"
| "PROCESSING_DURATION befundauskunft = Some 2"
| "PROCESSING_DURATION laborbefund = Some 2"
| "PROCESSING_DURATION ueberweisung = Some 2"
| "PROCESSING_DURATION allgemeine_info = Some 1"

text \<open>\<open>table[key] || d\<close>: the default \<open>d\<close> replaces a missing entry and also the
  falsy entry 0.\<close>

definition or_default :: "int option \<Rightarrow> int \<Rightarrow> int" where
  "or_default v d = (case v of None \<Rightarrow> d | Some n \<Rightarrow> if n = 0 then d else n)"

text \<open>\<open>splitByIntent\<close>. The \<open>Map\<close> is the list of its values in insertion order, one
  bucket per key. An item of a new intent appends an empty bucket; then the item is
  pushed to its bucket and the bucket's confidence is computed again.\<close>

definition newBucket :: "IntentType \<Rightarrow> IntentBucket" where
  "newBucket i =
     \<lparr> bucket_intent = i, bucket_items = [], bucket_confidence = 0,
       priority = or_default (INTENT_PRIORITIES i) 99 \<rparr>"

definition pushItem :: "Arithmetic \<Rightarrow> IntentItem \<Rightarrow> IntentBucket \<Rightarrow> IntentBucket" where
  "pushItem ar item b =
     (let its = bucket_items b @ [item]
      in b \<lparr> bucket_items := its,
             bucket_confidence :=
               num_div ar (foldl (\<lambda>sum it. num_add ar sum (confidence it)) 0 its)
                          (real (length its)) \<rparr>)"

definition splitStep :: "Arithmetic \<Rightarrow> IntentItem \<Rightarrow> IntentBucket list \<Rightarrow> IntentBucket list" where
  "splitStep ar item bs =
     (let bs' = (if list_ex (\<lambda>b. bucket_intent b = intent item) bs then bs
                 else bs @ [newBucket (intent item)])
      in map (\<lambda>b. if bucket_intent b = intent item then pushItem ar item b else b) bs')"

definition splitByIntent :: "Arithmetic \<Rightarrow> IntentItem list \<Rightarrow> IntentBucket list" where
  "splitByIntent ar its = fold (splitStep ar) its []"

text \<open>\<open>prioritizeIntents\<close>: \<open>Array.prototype.sort\<close> with the comparator of the source,
  as a stable insertion sort. The sort reads only the sign of the comparator, and the
  rounded difference of two doubles has the sign of the exact difference; the priorities
  are small integers.\<close>

definition compareBuckets :: "IntentBucket \<Rightarrow> IntentBucket \<Rightarrow> real" where
  "compareBuckets a b =
     (if priority a \<noteq> priority b then real_of_int (priority a - priority b)
      else bucket_confidence b - bucket_confidence a)"

fun insertBucket :: "IntentBucket \<Rightarrow> IntentBucket list \<Rightarrow> IntentBucket list" where
  "insertBucket a [] = [a]"
| "insertBucket a (b # bs) =
     (if compareBuckets a b \<le> 0 then a # b # bs else b # insertBucket a bs)"

definition prioritizeIntents :: "IntentBucket list \<Rightarrow> IntentBucket list" where
  "prioritizeIntents bs = foldr insertBucket bs []"

definition createProcessingPlan :: "Arithmetic \<Rightarrow> IntentItem list \<Rightarrow> ProcessingPlan" where
  "createProcessingPlan ar its =
     (let bucketMap = splitByIntent ar its;
          prioritizedBuckets = prioritizeIntents bucketMap;
          order = map bucket_intent prioritizedBuckets;
          duration = foldl (\<lambda>total bucket.
                        total + or_default (PROCESSING_DURATION (bucket_intent bucket)) 1
                                  * int (length (bucket_items bucket)))
                      0 prioritizedBuckets
      in \<lparr> buckets = prioritizedBuckets,
           totalItems = length its,
           multiIntent = (length bucketMap > 1),
           processingOrder = order,
           estimatedDuration = duration \<rparr>)"

text \<open>\<open>areIntentsCompatible\<close>.\<close>

definition terminIntents :: "IntentType list" where
  "terminIntents = [termin_anfragen, termin_verschieben, termin_absagen]"

definition compatibleWithTermin :: "IntentType list" where
  "compatibleWithTermin = terminIntents @ [rezept_anfordern, allgemeine_info]"

definition areIntentsCompatible :: "IntentType list \<Rightarrow> bool" where
  "areIntentsCompatible intents =
     (if notfall \<in> set intents \<and> length intents > 1 then False
      else if list_ex (\<lambda>i. i \<in> set terminIntents) intents
      then list_all (\<lambda>i. i \<in> set compatibleWithTermin) intents
      else True)"

section \<open>Business hours (src/MFA/src/time/businessHours.ts)\<close>

datatype HolidayType = federal | state | practice




















section \<open>Validation of the model output (src/MFA/src/intents/validate.ts)\<close>

text \<open>The value that \<open>JSON.parse\<close> returns. An object is the list of its properties.\<close>

datatype json =
    JNull
  | JBool bool
  | JNumber real
  | JString string
  | JArray "json list"
  | JObject "(string \<times> json) list"

text \<open>Reading a property of a parsed value; \<open>None\<close> is \<open>undefined\<close>.\<close>

fun property :: "string \<Rightarrow> json \<Rightarrow> json option" where
  "property k (JObject fs) = map_of fs k"
| "property k _ = None"

subsection \<open>The Zod schemas\<close>

text \<open>Each schema maps the value found to the typed value, or to \<open>None\<close> when Zod
  reports an issue. A nullable schema accepts \<open>null\<close> and rejects \<open>undefined\<close>.\<close>

fun zString :: "json option \<Rightarrow> string option" where
  "zString (Some (JString s)) = Some s"
| "zString _ = None"

fun zBoolean :: "json option \<Rightarrow> bool option" where
  "zBoolean (Some (JBool b)) = Some b"
| "zBoolean _ = None"

text \<open>\<open>z.number().min(0).max(1)\<close>.\<close>

fun zNumber01 :: "json option \<Rightarrow> real option" where
  "zNumber01 (Some (JNumber c)) = (if 0 \<le> c \<and> c \<le> 1 then Some c else None)"
| "zNumber01 _ = None"

fun zNullable :: "(json option \<Rightarrow> 'a option) \<Rightarrow> json option \<Rightarrow> 'a option option" where
  "zNullable z (Some JNull) = Some None"
| "zNullable z v = map_option Some (z v)"

text \<open>\<open>z.enum([...])\<close>: a string that is one of the listed values.\<close>

definition zEnum :: "(string \<times> 'a) list \<Rightarrow> json option \<Rightarrow> 'a option" where
  "zEnum table v = (case v of Some (JString s) \<Rightarrow> map_of table s | _ \<Rightarrow> None)"

definition INTENT_TYPES :: "(string \<times> IntentType) list" where
  "INTENT_TYPES =
     [(''termin_anfragen'', termin_anfragen),
      (''termin_verschieben'', termin_verschieben),
      (''termin_absagen'', termin_absagen),
      (''rezept_anfordern'', rezept_anfordern),
      (''arbeitsunfaehigkeit'', arbeitsunfaehigkeit),
      (''befundauskunft'', befundauskunft),
      (''allgemeine_info'', allgemeine_info),
      (''notfall'', notfall),
      (''laborbefund'', laborbefund),
      (''ueberweisung'', ueberweisung)]"

definition NEXT_ACTIONS :: "(string \<times> NextAction) list" where
  "NEXT_ACTIONS =
     [(''slots_vervollstaendigen'', slots_vervollstaendigen),
      (''termin_vorschlagen'', termin_vorschlagen),
      (''rueckfrage_senden'', rueckfrage_senden),
      (''eskalieren'', eskalieren),
      (''notfall_protokoll'', notfall_protokoll),
      (''sofort_termin'', sofort_termin)]"

definition Slots_parse :: "json option \<Rightarrow> IntentSlots option" where
  "Slots_parse v =
     (case v of
        Some (JObject fs) \<Rightarrow>
          do {
            a \<leftarrow> zNullable zString (map_of fs ''datum'');
            b \<leftarrow> zNullable zString (map_of fs ''zeit'');
            c \<leftarrow> zNullable (zEnum [(''hoch'', hoch), (''normal'', normal), (''niedrig'', niedrig)])
                   (map_of fs ''dringlichkeit'');
            d \<leftarrow> zNullable zString (map_of fs ''grund'');
            e \<leftarrow> zNullable zString (map_of fs ''person_name'');
            f \<leftarrow> zNullable zString (map_of fs ''geburtsdatum'');
            g \<leftarrow> zNullable (zEnum [(''gesetzlich'', gesetzlich), (''privat'', privat)])
                   (map_of fs ''versicherung'');
            h \<leftarrow> zNullable zString (map_of fs ''medikament'');
            i \<leftarrow> zNullable zString (map_of fs ''symptome'');
            j \<leftarrow> zNullable zString (map_of fs ''kontakt'');
            k \<leftarrow> zNullable zString (map_of fs ''freie_form'');
            Some \<lparr> datum = a, zeit = b, dringlichkeit = c, grund = d, person_name = e,
                   geburtsdatum = f, versicherung = g, medikament = h, symptome = i,
                   kontakt = j, freie_form = k \<rparr>
          }
      | _ \<Rightarrow> None)"

definition IntentItem_parse :: "json \<Rightarrow> IntentItem option" where
  "IntentItem_parse v =
     (case v of
        JObject fs \<Rightarrow>
          do {
            i \<leftarrow> zEnum INTENT_TYPES (map_of fs ''intent'');
            c \<leftarrow> zNumber01 (map_of fs ''confidence'');
            s \<leftarrow> Slots_parse (map_of fs ''slots'');
            a \<leftarrow> zEnum NEXT_ACTIONS (map_of fs ''next_action'');
            n \<leftarrow> zString (map_of fs ''notes'');
            Some \<lparr> intent = i, confidence = c, slots = s, next_action = a, item_notes = n \<rparr>
          }
      | _ \<Rightarrow> None)"

text \<open>\<open>z.array(IntentItem).min(1)\<close>: every element must parse.\<close>

fun all_parsed :: "'a option list \<Rightarrow> 'a list option" where
  "all_parsed [] = Some []"
| "all_parsed (None # _) = None"
| "all_parsed (Some x # rest) = map_option ((#) x) (all_parsed rest)"

definition Items_parse :: "json option \<Rightarrow> IntentItem list option" where
  "Items_parse v =
     (case v of
        Some (JArray elems) \<Rightarrow>
          (case all_parsed (map IntentItem_parse elems) of
             Some its \<Rightarrow> if length its \<ge> 1 then Some its else None
           | None \<Rightarrow> None)
      | _ \<Rightarrow> None)"

definition EmailMeta_parse :: "json option \<Rightarrow> EmailMeta option" where
  "EmailMeta_parse v =
     (case v of
        Some (JObject fs) \<Rightarrow>
          do {
            l \<leftarrow> zEnum [(''de'', ())] (map_of fs ''language'');
            r \<leftarrow> zNullable zString (map_of fs ''received_at_iso'');
            p \<leftarrow> zNullable (zEnum [(''normal'', prio_normal), (''urgent'', prio_urgent),
                                    (''emergency'', prio_emergency)])
                   (map_of fs ''priority_indicator'');
            Some \<lparr> received_at_iso = r, priority_indicator = p \<rparr>
          }
      | _ \<Rightarrow> None)"

definition Overall_parse :: "json option \<Rightarrow> Overall option" where
  "Overall_parse v =
     (case v of
        Some (JObject fs) \<Rightarrow>
          do {
            t \<leftarrow> zEnum INTENT_TYPES (map_of fs ''top_intent'');
            c \<leftarrow> zNumber01 (map_of fs ''max_confidence'');
            m \<leftarrow> zBoolean (map_of fs ''multi_intent'');
            s \<leftarrow> zNullable (zEnum [(''positiv'', positiv), (''neutral'', neutral),
                                    (''negativ'', negativ)])
                   (map_of fs ''sentiment'');
            h \<leftarrow> zBoolean (map_of fs ''requires_human'');
            Some \<lparr> top_intent = t, max_confidence = c, multi_intent = m, sentiment = s,
                   requires_human = h \<rparr>
          }
      | _ \<Rightarrow> None)"

definition IntentResponseSchema_parse :: "json \<Rightarrow> IntentResponse option" where
  "IntentResponseSchema_parse obj =
     (case obj of
        JObject fs \<Rightarrow>
          do {
            m \<leftarrow> EmailMeta_parse (map_of fs ''email_meta'');
            its \<leftarrow> Items_parse (map_of fs ''items'');
            ov \<leftarrow> Overall_parse (map_of fs ''overall'');
            Some \<lparr> email_meta = m, items = its, overall = ov \<rparr>
          }
      | _ \<Rightarrow> None)"

subsection \<open>Plausibility\<close>

fun string_of_IntentType :: "IntentType \<Rightarrow> string" where
  "string_of_IntentType termin_anfragen = ''termin_anfragen''"
| "string_of_IntentType termin_verschieben = ''termin_verschieben''"
| "string_of_IntentType termin_absagen = ''termin_absagen''"
| "string_of_IntentType rezept_anfordern = ''rezept_anfordern''"
| "string_of_IntentType arbeitsunfaehigkeit = ''arbeitsunfaehigkeit''"
| "string_of_IntentType befundauskunft = ''befundauskunft''"
| "string_of_IntentType allgemeine_info = ''allgemeine_info''"
| "string_of_IntentType notfall = ''notfall''"
| "string_of_IntentType laborbefund = ''laborbefund''"
| "string_of_IntentType ueberweisung = ''ueberweisung''"

text \<open>The calls of \<open>console.warn\<close>, with the declared and the actual value.\<close>

datatype Warning =
    MaxConfidenceMismatch real real
  | MultiIntentMismatch bool bool

text \<open>\<open>validatePlausibility\<close>: \<open>Inl\<close> is the error thrown, \<open>Inr\<close> the warnings written.
  With no item, \<open>some\<close> is false and the function throws; behind that test \<open>Math.max\<close>
  has at least one argument. The difference of the two confidences is computed by the
  runtime. The limit of an engine on the number of arguments of \<open>Math.max\<close> is not
  modelled.\<close>

definition topIntentMissing :: "IntentResponse \<Rightarrow> Thrown" where
  "topIntentMissing response =
     ErrorObject (''Top intent '' @ [char_of (34::nat)]
                    @ string_of_IntentType (top_intent (overall response))
                    @ [char_of (34::nat)] @ '' nicht in items gefunden'')"

definition validatePlausibility :: "Arithmetic \<Rightarrow> IntentResponse \<Rightarrow> Thrown + Warning list" where
  "validatePlausibility ar response =
     (case items response of
        [] \<Rightarrow> Inl (topIntentMissing response)
      | first # rest \<Rightarrow>
          if \<not> list_ex (\<lambda>item. intent item = top_intent (overall response)) (items response)
          then Inl (topIntentMissing response)
          else
            (let actualMaxConfidence = math_max (confidence first) (map confidence rest);
                 w1 = (if \<bar>num_sub ar (max_confidence (overall response)) actualMaxConfidence\<bar>
                            > 0.01
                       then [MaxConfidenceMismatch (max_confidence (overall response))
                               actualMaxConfidence]
                       else []);
                 actualMultiIntent = (length (remdups (map intent (items response))) > 1);
                 w2 = (if multi_intent (overall response) \<noteq> actualMultiIntent
                       then [MultiIntentMismatch (multi_intent (overall response))
                               actualMultiIntent]
                       else [])
             in Inr (w1 @ w2)))"

subsection \<open>parseIntentJSON\<close>

text \<open>The libraries that the function calls are not part of the repository; they are
  parameters, together with the arithmetic of the runtime. A call of \<open>jsonrepair\<close> or of
  \<open>JSON.parse\<close> returns a value (\<open>Inr\<close>), throws (\<open>Inl\<close>) or does not come back
  (\<open>None\<close>). \<open>zodErrorMessage\<close> is the message of the \<open>ZodError\<close> for a rejected value.\<close>

record External =
  jsonrepair :: "string \<Rightarrow> (Thrown + string) option"
  JSON_parse :: "string \<Rightarrow> (Thrown + json) option"
  zodErrorMessage :: "json \<Rightarrow> string"
  arithmetic :: Arithmetic

definition is_ascii_letter :: "char \<Rightarrow> bool" where
  "is_ascii_letter c =
     (let n = (of_char c :: nat) in (65 \<le> n \<and> n \<le> 90) \<or> (97 \<le> n \<and> n \<le> 122))"

text \<open>\<open>txt.replace(/^```[a-zA-Z]*\n?/, "")\<close> for a text that starts with the fence, and
  \<open>replace(/```$/, "")\<close>.\<close>

definition stripOpeningFence :: "string \<Rightarrow> string" where
  "stripOpeningFence txt =
     (let r = dropWhile is_ascii_letter (drop 3 txt)
      in case r of c # cs \<Rightarrow> if c = char_of (10::nat) then cs else r | [] \<Rightarrow> r)"

definition stripClosingFence :: "string \<Rightarrow> string" where
  "stripClosingFence txt = (if suffix ''```'' txt then take (length txt - 3) txt else txt)"

fun indexOf :: "char \<Rightarrow> string \<Rightarrow> nat option" where
  "indexOf c [] = None"
| "indexOf c (x # xs) = (if x = c then Some 0 else map_option Suc (indexOf c xs))"

definition lastIndexOf :: "char \<Rightarrow> string \<Rightarrow> nat option" where
  "lastIndexOf c s = map_option (\<lambda>i. length s - 1 - i) (indexOf c (rev s))"

definition extractJSON :: "string \<Rightarrow> string" where
  "extractJSON raw =
     (let txt = trim raw;
          txt = (if prefix ''```'' txt then stripClosingFence (stripOpeningFence txt) else txt)
      in case (indexOf (CHR ''{'') txt, lastIndexOf (CHR ''}'') txt) of
           (Some jsonStart, Some jsonEnd) \<Rightarrow> substring jsonStart (jsonEnd + 1) txt
         | _ \<Rightarrow> txt)"

text \<open>The outcome of \<open>JSON.parse(repaired)\<close>; a repair that throws keeps the text.\<close>

definition parsedObject :: "External \<Rightarrow> string \<Rightarrow> (Thrown + json) option" where
  "parsedObject ext raw =
     (let txt = extractJSON raw
      in case jsonrepair ext txt of
           None \<Rightarrow> None
         | Some (Inl repairError) \<Rightarrow> JSON_parse ext txt
         | Some (Inr repaired) \<Rightarrow> JSON_parse ext repaired)"

text \<open>The body of the \<open>try\<close> block; \<open>Inl\<close> is whatever is thrown in it.\<close>

definition parseIntentJSON_try :: "External \<Rightarrow> string \<Rightarrow> (Thrown + IntentResponse) option" where
  "parseIntentJSON_try ext raw =
     (case parsedObject ext raw of
        None \<Rightarrow> None
      | Some (Inl thrown) \<Rightarrow> Some (Inl thrown)
      | Some (Inr obj) \<Rightarrow>
          (case IntentResponseSchema_parse obj of
             None \<Rightarrow> Some (Inl (ErrorObject (zodErrorMessage ext obj)))
           | Some validated \<Rightarrow>
               (case validatePlausibility (arithmetic ext) validated of
                  Inl thrown \<Rightarrow> Some (Inl thrown)
                | Inr warnings \<Rightarrow> Some (Inr validated))))"

text \<open>The \<open>catch\<close> block reads the message of what it caught and throws \<open>new Error\<close> with
  the prefixed message; when reading the message throws, that error leaves the function
  instead. The letter after \<open>Ung\<close> is u-umlaut, the code unit U+00FC.\<close>

definition invalidPrefix :: string where
  "invalidPrefix = ''Ung'' @ [char_of (252::nat)] @ ''ltiges Intent-JSON: ''"

definition parseIntentJSON_catch :: "Thrown \<Rightarrow> Thrown" where
  "parseIntentJSON_catch thrown =
     (case messageOf thrown of
        Inl conversion \<Rightarrow> conversion
      | Inr message \<Rightarrow> ErrorObject (invalidPrefix @ message))"

definition parseIntentJSON :: "External \<Rightarrow> string \<Rightarrow> (Thrown + IntentResponse) option" where
  "parseIntentJSON ext raw =
     (case parseIntentJSON_try ext raw of
        None \<Rightarrow> None
      | Some (Inl thrown) \<Rightarrow> Some (Inl (parseIntentJSON_catch thrown))
      | Some (Inr validated) \<Rightarrow> Some (Inr validated))"

definition createEmptyResponse :: "string \<Rightarrow> IntentResponse" where
  "createEmptyResponse reason =
     \<lparr> email_meta = \<lparr> received_at_iso = None, priority_indicator = None \<rparr>,
       items = [\<lparr> intent = allgemeine_info, confidence = 0.1,
                  slots = \<lparr> datum = None, zeit = None, dringlichkeit = None, grund = None,
                            person_name = None, geburtsdatum = None, versicherung = None,
                            medikament = None, symptome = None, kontakt = None,
                            freie_form = Some reason \<rparr>,
                  next_action = eskalieren,
                  item_notes = ''Fehlerhafte Klassifikation: '' @ reason \<rparr>],
       overall = \<lparr> top_intent = allgemeine_info, max_confidence = 0.1, multi_intent = False,
                   sentiment = None, requires_human = True \<rparr> \<rparr>"

text \<open>What the schema guarantees beyond the types of the fields.\<close>

definition schemaValid :: "IntentResponse \<Rightarrow> bool" where
  "schemaValid r =
     (length (items r) \<ge> 1
      \<and> list_all (\<lambda>item. 0 \<le> confidence item \<and> confidence item \<le> 1) (items r)
      \<and> 0 \<le> max_confidence (overall r) \<and> max_confidence (overall r) \<le> 1)"

text \<open>The numbers that the parsed object declares as confidences: the \<open>confidence\<close> of
  the elements of \<open>items\<close> and \<open>overall.max_confidence\<close>.\<close>

definition numberOf :: "json option \<Rightarrow> real list" where
  "numberOf v = (case v of Some (JNumber c) \<Rightarrow> [c] | _ \<Rightarrow> [])"

definition declaredConfidences :: "json \<Rightarrow> real list" where
  "declaredConfidences obj =
     (case property ''items'' obj of
        Some (JArray elems) \<Rightarrow> concat (map (\<lambda>e. numberOf (property ''confidence'' e)) elems)
      | _ \<Rightarrow> [])
     @ (case property ''overall'' obj of
          Some ov \<Rightarrow> numberOf (property ''max_confidence'' ov)
        | None \<Rightarrow> [])"

section \<open>Complexity of a plan (src/unnamed/part_003)\<close>

datatype ComplexityLevel = level_simple | level_medium | level_complex | level_critical

record Complexity =
  level :: ComplexityLevel
  score :: real
  factors :: "string list"

text \<open>\<open>analyzeComplexity\<close>. For a plan without buckets the average is 0/0, which is
  \<open>NaN\<close>, and the comparison with 0.6 is false. The factor texts contain a-umlaut, the
  code unit U+00E4.\<close>

definition analyzeComplexity :: "Arithmetic \<Rightarrow> ProcessingPlan \<Rightarrow> Complexity" where
  "analyzeComplexity ar plan =
     (let n = length (buckets plan);
          (s1, f1) = (if n > 1
                      then (num_add ar 0 (num_mul ar 0.2 (real (min (n - 1) 3))),
                            [string_of_nat n @ '' verschiedene Anliegen''])
                      else (0, []));
          (s2, f2) = (if list_ex (\<lambda>bucket. bucket_intent bucket = notfall) (buckets plan)
                      then (num_add ar s1 0.5, f1 @ [''Notfall erkannt'']) else (s1, f1));
          avgConfidence =
            num_div ar (foldl (\<lambda>sum bucket. num_add ar sum (bucket_confidence bucket)) 0
                          (buckets plan))
                       (real n);
          (s3, f3) = (if n \<noteq> 0 \<and> avgConfidence < 0.6
                      then (num_add ar s2 0.3, f2 @ [''Niedrige Erkennungssicherheit'']) else (s2, f2));
          (s4, f4) = (if estimatedDuration plan > 5
                      then (num_add ar s3 0.2, f3 @ [''L'' @ [char_of (228::nat)]
                                              @ ''ngere Bearbeitungszeit erwartet''])
                      else (s3, f3));
          (s5, f5) = (if \<not> areIntentsCompatible (map bucket_intent (buckets plan))
                      then (num_add ar s4 0.3, f4 @ [''Inkompatible Anliegen-Kombination''])
                      else (s4, f4));
          lv = (if s5 \<ge> 0.8 then level_critical
                else if s5 \<ge> 0.5 then level_complex
                else if s5 \<ge> 0.3 then level_medium
                else level_simple)
      in \<lparr> level = lv, score = s5, factors = f5 \<rparr>)"

section \<open>The classification pipeline (src/MFA/src/pipeline/classifyExtract.ts)\<close>

record ClassificationResult =
  originalEmail :: string
  timestamp :: string
  llmResponse :: string
  llmModel :: "string option"
  llmDuration :: "nat option"
  parsed :: IntentResponse
  normalized :: IntentResponse
  parsingError :: "string option"
  decision :: GateDecision
  processingPlan :: ProcessingPlan
  complexity :: Complexity
  success :: bool
  error :: "string option"
  warnings :: "string list"

text \<open>The options after the defaults have been merged in.\<close>

record ClassificationOptions =
  slotDurationMinutes :: nat
  normalizeSlots :: bool
  optLlmModel :: string
  enableFallback :: bool
  timeout :: nat

definition DEFAULT_OPTIONS :: ClassificationOptions where
  "DEFAULT_OPTIONS =
     \<lparr> slotDurationMinutes = 15, normalizeSlots = True, optLlmModel = ''claude-3.5-sonnet'',
       enableFallback = True, timeout = 30000 \<rparr>"

text \<open>What the provider resolves with.\<close>

record LLMResult =
  response :: string
  model :: string
  duration :: nat

text \<open>The outcome of \<open>Promise.race\<close> between the call of the provider and the timer:
  the provider resolves first, or it throws or rejects first with some value, or the timer
  rejects first.\<close>

datatype LLMOutcome =
    Resolved LLMResult
  | Rejected Thrown
  | TimedOut

text \<open>The part of a \<open>NormalizedDateTime\<close> that the pipeline writes back into the slots.\<close>

record NormalizedDateTime =
  dateOnly :: "string option"
  timeOnly :: "string option"
  timeRange :: "(string \<times> string) option"

text \<open>What the pipeline takes from outside: the clock, the libraries of the validator
  with the arithmetic, the settled normalisation of one pair of slots and the configuration
  of the gate. A rejected normalisation is \<open>Inl\<close>, with the text that the template
  \<open>${error}\<close> gives for the value, or \<open>None\<close> for a value without string form. The text
  of the prompt is not modelled; building it cannot throw.\<close>

record Environment =
  now :: string
  libraries :: External
  normalizeDateTimeSlots ::
    "string option \<Rightarrow> string option \<Rightarrow> nat \<Rightarrow> string option + NormalizedDateTime"
  gateConfig :: GateConfig

text \<open>Writing one settled normalisation into its item; a null or empty value leaves
  the slot as it is.\<close>

definition writeNormalized :: "NormalizedDateTime \<Rightarrow> IntentItem \<Rightarrow> IntentItem" where
  "writeNormalized dateTime item =
     (let s1 = (case dateOnly dateTime of
                  Some d \<Rightarrow> if d \<noteq> [] then (slots item) \<lparr> datum := Some d \<rparr> else slots item
                | None \<Rightarrow> slots item);
          s2 = (case timeOnly dateTime of
                  Some t \<Rightarrow>
                    if t \<noteq> []
                    then s1 \<lparr> zeit := Some (case timeRange dateTime of
                                               Some (a, b) \<Rightarrow> a @ ''-'' @ b
                                             | None \<Rightarrow> t) \<rparr>
                    else s1
                | None \<Rightarrow> s1)
      in item \<lparr> slots := s2 \<rparr>)"

text \<open>The normalisation of all items, in the order of the items. A rejected
  normalisation leaves its item as parsed; the \<open>catch\<close> of the callback adds a warning,
  unless the rejection value has no string form: then the template throws, the callback
  rejects, and \<open>Promise.allSettled\<close> keeps that to itself.\<close>

fun normalizeItems ::
  "Environment \<Rightarrow> nat \<Rightarrow> nat \<Rightarrow> IntentItem list \<Rightarrow> IntentItem list \<times> string list" where
  "normalizeItems env minutes index [] = ([], [])"
| "normalizeItems env minutes index (item # rest) =
     (let (rest', ws) = normalizeItems env minutes (Suc index) rest
      in case normalizeDateTimeSlots env (datum (slots item)) (zeit (slots item)) minutes of
           Inr dateTime \<Rightarrow> (writeNormalized dateTime item # rest', ws)
         | Inl (Some errorText) \<Rightarrow>
             (item # rest',
              (''Normalisierung f'' @ [char_of (252::nat)] @ ''r Item '' @ string_of_nat index
                @ '' fehlgeschlagen: '' @ errorText) # ws)
         | Inl None \<Rightarrow> (item # rest', ws))"

text \<open>Step 2 of the \<open>try\<close> block: the parsed response, the parsing error and the
  warning of the fallback; \<open>Inl\<close> is what the inner \<open>catch\<close> block throws, which is the
  caught error again when the fallback is switched off, and the error of the conversion
  when the caught value has no string form.\<close>

definition parseOrFallback ::
  "ClassificationOptions \<Rightarrow> Thrown + IntentResponse
     \<Rightarrow> Thrown + IntentResponse \<times> string option \<times> string list" where
  "parseOrFallback opts outcome =
     (case outcome of
        Inr p \<Rightarrow> Inr (p, None, [])
      | Inl thrown \<Rightarrow>
          (case messageOf thrown of
             Inl conversion \<Rightarrow> Inl conversion
           | Inr parsingMessage \<Rightarrow>
               if enableFallback opts
               then Inr (createEmptyResponse (''Parsing-Fehler: '' @ parsingMessage),
                         Some parsingMessage,
                         [''JSON-Parsing fehlgeschlagen, verwende Fallback''])
               else Inl thrown))"

text \<open>The body of the \<open>try\<close> block of \<open>classifyEmail\<close>; \<open>Inl\<close> holds the value thrown and
  the warnings collected until then, and \<open>None\<close> is a call of a library that does not
  come back.\<close>

definition classifyEmail_try ::
  "Environment \<Rightarrow> string \<Rightarrow> LLMOutcome \<Rightarrow> ClassificationOptions
     \<Rightarrow> ((Thrown \<times> string list) + ClassificationResult) option" where
  "classifyEmail_try env email outcome opts =
     (case outcome of
        Rejected thrown \<Rightarrow> Some (Inl (thrown, []))
      | TimedOut \<Rightarrow> Some (Inl (ErrorObject ''LLM timeout'', []))
      | Resolved llmResult \<Rightarrow>
          (case parseIntentJSON (libraries env) (response llmResult) of
             None \<Rightarrow> None
           | Some parseOutcome \<Rightarrow>
               (case parseOrFallback opts parseOutcome of
                  Inl thrown \<Rightarrow> Some (Inl (thrown, []))
                | Inr (p, perr, ws) \<Rightarrow>
                    (let (its, ws') =
                           (if normalizeSlots opts
                            then normalizeItems env (slotDurationMinutes opts) 0 (items p)
                            else (items p, []));
                         norm = p \<lparr> items := its \<rparr>;
                         plan = createProcessingPlan (arithmetic (libraries env)) (items norm)
                     in Some (Inr \<lparr> originalEmail = email,
                                    timestamp = now env,
                                    llmResponse = response llmResult,
                                    llmModel = Some (model llmResult),
                                    llmDuration = Some (duration llmResult),
                                    parsed = p,
                                    normalized = norm,
                                    parsingError = perr,
                                    decision = gate (gateConfig env) norm (Some email),
                                    processingPlan = plan,
                                    complexity =
                                      analyzeComplexity (arithmetic (libraries env)) plan,
                                    success = True,
                                    error = None,
                                    warnings = ws @ ws' \<rparr>)))))"

text \<open>The result of the \<open>catch\<close> block for an error message.\<close>

definition failureResult ::
  "Environment \<Rightarrow> string \<Rightarrow> string \<Rightarrow> string list \<Rightarrow> ClassificationResult" where
  "failureResult env email errorMessage ws =
     \<lparr> originalEmail = email,
       timestamp = now env,
       llmResponse = [],
       llmModel = None,
       llmDuration = None,
       parsed = createEmptyResponse ''Kritischer Fehler'',
       normalized = createEmptyResponse ''Kritischer Fehler'',
       parsingError = None,
       decision = ESCALATE [] ''Kritischer Fehler bei der Klassifikation'' 0,
       processingPlan = \<lparr> buckets = [], totalItems = 0, multiIntent = False,
                           processingOrder = [], estimatedDuration = 0 \<rparr>,
       complexity = \<lparr> level = level_critical, score = 1.0,
                      factors = [''Klassifikationsfehler''] \<rparr>,
       success = False,
       error = Some errorMessage,
       warnings = ws \<rparr>"

text \<open>\<open>classifyEmail\<close>, as the way its promise settles: fulfilled with a result
  (\<open>Inr\<close>), rejected with a value (\<open>Inl\<close>), or never (\<open>None\<close>). The \<open>catch\<close> block reads
  the message of what it caught and returns the failure result; when reading the message
  throws, the promise is rejected with that error.\<close>

definition classifyEmail ::
  "Environment \<Rightarrow> string \<Rightarrow> LLMOutcome \<Rightarrow> ClassificationOptions
     \<Rightarrow> (Thrown + ClassificationResult) option" where
  "classifyEmail env email outcome opts =
     (case classifyEmail_try env email outcome opts of
        None \<Rightarrow> None
      | Some (Inr result) \<Rightarrow> Some (Inr result)
      | Some (Inl (thrown, ws)) \<Rightarrow>
          (case messageOf thrown of
             Inl conversion \<Rightarrow> Some (Inl conversion)
           | Inr errorMessage \<Rightarrow> Some (Inr (failureResult env email errorMessage ws))))"

text \<open>\<open>validateClassificationResult\<close>; the entries of the list it returns, by kind. The
  test \<open>!result.error\<close> holds for a missing and for an empty message.\<close>

datatype ValidationError =
    FailedWithoutError
  | SuccessWithoutItems
  | InvalidConfidence IntentType real
  | EmergencyNotEscalated
  | ItemCountMismatch

fun isEmergencyDecision :: "GateDecision \<Rightarrow> bool" where
  "isEmergencyDecision (EMERGENCY its reason urgency) = True"
| "isEmergencyDecision _ = False"

definition validateClassificationResult :: "ClassificationResult \<Rightarrow> ValidationError list" where
  "validateClassificationResult result =
     (if \<not> success result \<and> (error result = None \<or> error result = Some [])
      then [FailedWithoutError] else [])
     @ (if length (items (parsed result)) = 0 \<and> success result
        then [SuccessWithoutItems] else [])
     @ concat (map (\<lambda>item.
                 (if confidence item < 0 \<or> confidence item > 1
                  then [InvalidConfidence (intent item) (confidence item)] else [])
                 @ (if intent item = notfall \<and> \<not> isEmergencyDecision (decision result)
                    then [EmergencyNotEscalated] else []))
               (items (normalized result)))
     @ (if length (items (parsed result)) \<noteq> length (items (normalized result))
        then [ItemCountMismatch] else [])"

section \<open>Example data\<close>

definition emptySlots :: IntentSlots where
  "emptySlots =
     \<lparr> datum = None, zeit = None, dringlichkeit = None, grund = None, person_name = None,
       geburtsdatum = None, versicherung = None, medikament = None, symptome = None,
       kontakt = None, freie_form = None \<rparr>"

definition mkItem :: "IntentType \<Rightarrow> real \<Rightarrow> IntentSlots \<Rightarrow> NextAction \<Rightarrow> IntentItem" where
  "mkItem i c s a = \<lparr> intent = i, confidence = c, slots = s, next_action = a, item_notes = ''ok'' \<rparr>"

definition mkResponse :: "IntentItem list \<Rightarrow> IntentType \<Rightarrow> real \<Rightarrow> bool \<Rightarrow> IntentResponse" where
  "mkResponse its t c h =
     \<lparr> email_meta = \<lparr> received_at_iso = None, priority_indicator = None \<rparr>,
       items = its,
       overall = \<lparr> top_intent = t, max_confidence = c, multi_intent = (1 < length its),
                   sentiment = None, requires_human = h \<rparr> \<rparr>"

text \<open>One emergency item of confidence 0.1 after nine appointment requests of confidence 0.99.\<close>

definition lowEmergencyItem :: IntentItem where
  "lowEmergencyItem = mkItem notfall 0.1 emptySlots notfall_protokoll"

definition buriedEmergency :: IntentResponse where
  "buriedEmergency =
     mkResponse
       (replicate 9 (mkItem termin_anfragen 0.99 emptySlots termin_vorschlagen) @ [lowEmergencyItem])
       termin_anfragen 0.99 False"

text \<open>A single general inquiry of confidence 0.9.\<close>

definition plainInfo :: IntentResponse where
  "plainInfo = mkResponse [mkItem allgemeine_info 0.9 emptySlots rueckfrage_senden] allgemeine_info 0.9 False"
section \<open>Buckets, as the plan rules describe them\<close>

text \<open>The bucket of an intent: the items of that intent in their order, the mean of
  their confidences (the confidences added from the left and the sum divided by their
  number, in the arithmetic of the runtime) and the priority of the table.\<close>

definition bucketOf :: "Arithmetic \<Rightarrow> IntentItem list \<Rightarrow> IntentType \<Rightarrow> IntentBucket" where
  "bucketOf ar its i =
     (let members = filter (\<lambda>item. intent item = i) its
      in \<lparr> bucket_intent = i, bucket_items = members,
           bucket_confidence =
             num_div ar (foldl (\<lambda>sum item. num_add ar sum (confidence item)) 0 members)
                        (real (length members)),
           priority = or_default (INTENT_PRIORITIES i) 99 \<rparr>)"

text \<open>The comparator as an order: ascending priority, then descending confidence.\<close>

definition bucketBefore :: "IntentBucket \<Rightarrow> IntentBucket \<Rightarrow> bool" where
  "bucketBefore a b =
     (priority a < priority b
      \<or> (priority a = priority b \<and> bucket_confidence b \<le> bucket_confidence a))"

section \<open>Required slots, as the gate rules describe them\<close>

text \<open>A slot is filled when it holds a string with at least one character that is not
  white space; the white space of a string of code units below 256 is tab, line feed,
  vertical tab, form feed, carriage return, space and no-break space.\<close>

definition whiteSpace :: "char list" where
  "whiteSpace = [CHR 0x09, CHR 0x0A, CHR 0x0B, CHR 0x0C, CHR 0x0D, CHR 0x20, CHR 0xA0]"

definition slotFilled :: "string option \<Rightarrow> bool" where
  "slotFilled v = (case v of None \<Rightarrow> False | Some s \<Rightarrow> list_ex (\<lambda>c. c \<notin> set whiteSpace) s)"

text \<open>The required slots of the default table that an item lacks: date and time for an
  appointment request, the date for a rescheduling, the medication for a prescription,
  the reason for a sick note and for a referral, none for any other intent.\<close>

definition lacking :: "string \<Rightarrow> string option \<Rightarrow> string list" where
  "lacking name v = (if slotFilled v then [] else [name])"

definition missingOfItem :: "IntentItem \<Rightarrow> string list" where
  "missingOfItem item =
     (if intent item = termin_anfragen
        then lacking ''datum'' (datum (slots item)) @ lacking ''zeit'' (zeit (slots item))
      else if intent item = termin_verschieben then lacking ''datum'' (datum (slots item))
      else if intent item = rezept_anfordern then lacking ''medikament'' (medikament (slots item))
      else if intent item = arbeitsunfaehigkeit \<or> intent item = ueberweisung
        then lacking ''grund'' (grund (slots item))
      else [])"

definition missingRequiredSlots :: "IntentItem list \<Rightarrow> string list" where
  "missingRequiredSlots its = concat (map missingOfItem its)"

text \<open>A response with one appointment request of the given date, time and confidence;
  the declared maximal confidence is the confidence of the item.\<close>

definition appointment :: "string option \<Rightarrow> string option \<Rightarrow> real \<Rightarrow> IntentResponse" where
  "appointment d z c =
     mkResponse [mkItem termin_anfragen c (emptySlots \<lparr> datum := d, zeit := z \<rparr>) termin_vorschlagen]
       termin_anfragen c False"

text \<open>A general inquiry whose declared confidence is exactly the default threshold 0.85.\<close>

definition boundaryInfo :: IntentResponse where
  "boundaryInfo =
     mkResponse [mkItem allgemeine_info 0.85 emptySlots rueckfrage_senden] allgemeine_info 0.85 False"



text \<open>A model output with one appointment request, as text and as the object that
  \<open>JSON.parse\<close> returns for it; the confidence of the item, the declared top intent and
  the declared maximal confidence vary.\<close>

definition responseText :: "string \<Rightarrow> string \<Rightarrow> string \<Rightarrow> string" where
  "responseText conf declaredTop maxc =
     ''{\"email_meta\":{\"language\":\"de\",\"received_at_iso\":null,\"priority_indicator\":null},''
     @ ''\"items\":[{\"intent\":\"termin_anfragen\",\"confidence\":'' @ conf
     @ '',\"slots\":{\"datum\":\"morgen\",\"zeit\":null,\"dringlichkeit\":null,\"grund\":null,''
     @ ''\"person_name\":null,\"geburtsdatum\":null,\"versicherung\":null,\"medikament\":null,''
     @ ''\"symptome\":null,\"kontakt\":null,\"freie_form\":null},''
     @ ''\"next_action\":\"termin_vorschlagen\",\"notes\":\"Termin\"}],''
     @ ''\"overall\":{\"top_intent\":\"'' @ declaredTop @ ''\",\"max_confidence\":'' @ maxc
     @ '',\"multi_intent\":true,\"sentiment\":null,\"requires_human\":false}}''"

definition responseObject :: "real \<Rightarrow> string \<Rightarrow> real \<Rightarrow> json" where
  "responseObject conf declaredTop maxc =
     JObject
       [(''email_meta'', JObject [(''language'', JString ''de''), (''received_at_iso'', JNull),
                                   (''priority_indicator'', JNull)]),
        (''items'', JArray
           [JObject
              [(''intent'', JString ''termin_anfragen''), (''confidence'', JNumber conf),
               (''slots'', JObject
                  [(''datum'', JString ''morgen''), (''zeit'', JNull), (''dringlichkeit'', JNull),
                   (''grund'', JNull), (''person_name'', JNull), (''geburtsdatum'', JNull),
                   (''versicherung'', JNull), (''medikament'', JNull), (''symptome'', JNull),
                   (''kontakt'', JNull), (''freie_form'', JNull)]),
               (''next_action'', JString ''termin_vorschlagen''), (''notes'', JString ''Termin'')]]),
        (''overall'', JObject
           [(''top_intent'', JString declaredTop), (''max_confidence'', JNumber maxc),
            (''multi_intent'', JBool True), (''sentiment'', JNull),
            (''requires_human'', JBool False)])]"

definition appointmentTomorrow :: "real \<Rightarrow> IntentItem" where
  "appointmentTomorrow conf =
     \<lparr> intent = termin_anfragen, confidence = conf,
       slots = emptySlots \<lparr> datum := Some ''morgen'' \<rparr>,
       next_action = termin_vorschlagen, item_notes = ''Termin'' \<rparr>"

definition appointmentResponse :: "real \<Rightarrow> IntentType \<Rightarrow> real \<Rightarrow> IntentResponse" where
  "appointmentResponse conf declaredTop maxc =
     \<lparr> email_meta = \<lparr> received_at_iso = None, priority_indicator = None \<rparr>,
       items = [appointmentTomorrow conf],
       overall = \<lparr> top_intent = declaredTop, max_confidence = maxc, multi_intent = True,
                   sentiment = None, requires_human = False \<rparr> \<rparr>"

text \<open>Libraries that know three texts: the repair returns the text, and the parser
  returns the object of a known text and throws a syntax error for any other. The
  arithmetic of the examples does not round; no result stated for an example depends
  on it.\<close>

definition knownTexts :: "(string \<times> json) list" where
  "knownTexts =
     [(responseText ''0.9'' ''termin_anfragen'' ''0.5'', responseObject 0.9 ''termin_anfragen'' 0.5),
      (responseText ''0.9'' ''notfall'' ''0.9'', responseObject 0.9 ''notfall'' 0.9),
      (responseText ''1.5'' ''termin_anfragen'' ''0.9'', responseObject 1.5 ''termin_anfragen'' 0.9)]"

definition exactArithmetic :: Arithmetic where
  "exactArithmetic = \<lparr> num_add = (+), num_sub = (-), num_mul = (*), num_div = (/) \<rparr>"

definition exampleLibraries :: External where
  "exampleLibraries =
     \<lparr> jsonrepair = (\<lambda>s. Some (Inr s)),
       JSON_parse = (\<lambda>s. case map_of knownTexts s of
                            Some obj \<Rightarrow> Some (Inr obj)
                          | None \<Rightarrow> Some (Inl (ErrorObject ''Unexpected token''))),
       zodErrorMessage = (\<lambda>obj. ''Invalid input''),
       arithmetic = exactArithmetic \<rparr>"

text \<open>An environment with the example libraries, a normalisation that resolves nothing
  and the default gate.\<close>

definition exampleEnvironment :: Environment where
  "exampleEnvironment =
     \<lparr> now = ''2025-11-04T09:00:00.000Z'',
       libraries = exampleLibraries,
       normalizeDateTimeSlots =
         (\<lambda>d t m. Inr \<lparr> dateOnly = None, timeOnly = None, timeRange = None \<rparr>),
       gateConfig = DEFAULT_CONFIG \<rparr>"
section \<open>Business hours, as the rules describe them\<close>









section \<open>The gate: emergencies first\<close>

lemma math_max_Max: "math_max x xs = Max (set (x # xs))"
  unfolding math_max_def by (rule Max.set_eq_fold [symmetric])

lemma checkForEmergency_items:
  assumes "filter isEmergencyItem (items resp) \<noteq> []"
  shows "checkForEmergency cfg resp originalText =
     Some (EMERGENCY (filter isEmergencyItem (items resp)) ''Notfall-Intent erkannt''
       (if Max (confidence ` set (filter isEmergencyItem (items resp))) > 0.8
        then critical else high))"
proof -
  obtain e es where E: "filter isEmergencyItem (items resp) = e # es"
    using assms by (cases "filter isEmergencyItem (items resp)") auto
  have "math_max (confidence e) (map confidence es) = Max (confidence ` set (e # es))"
    by (simp add: math_max_Max)
  then show ?thesis
    by (simp add: checkForEmergency_def E Let_def)
qed

lemma isEmergencyItem_eq:
  "isEmergencyItem = (\<lambda>item. intent item = notfall \<or> next_action item = notfall_protokoll)"
  by (simp add: isEmergencyItem_def fun_eq_iff)

text \<open>
  C1. A response with at least one item of intent \<open>notfall\<close> or next action
  \<open>notfall_protokoll\<close> is gated to \<open>EMERGENCY\<close>, whatever the configuration, the raw text,
  the other items and \<open>requires_human\<close> are. The decision carries exactly the emergency
  items, and its urgency is \<open>critical\<close> exactly when the largest confidence among them
  exceeds 0.8, and \<open>high\<close> otherwise.
\<close>

theorem gate_emergency_item:
  assumes "\<exists>item \<in> set (items resp). intent item = notfall \<or> next_action item = notfall_protokoll"
  shows "gate cfg resp originalText =
     EMERGENCY
       (filter (\<lambda>item. intent item = notfall \<or> next_action item = notfall_protokoll) (items resp))
       ''Notfall-Intent erkannt''
       (if Max (confidence ` {item \<in> set (items resp).
                   intent item = notfall \<or> next_action item = notfall_protokoll}) > 0.8
        then critical else high)"
proof -
  have ne: "filter isEmergencyItem (items resp) \<noteq> []"
    using assms by (auto simp: filter_empty_conv isEmergencyItem_def)
  show ?thesis
    using checkForEmergency_items [OF ne, of cfg originalText]
    by (simp add: gate_def isEmergencyItem_eq)
qed

theorem gate_emergency_item_witness:
  "gate DEFAULT_CONFIG buriedEmergency (Some ''Ich brauche einen Termin'')
     = EMERGENCY [lowEmergencyItem] ''Notfall-Intent erkannt'' high"
proof -
  have h: "\<exists>item \<in> set (items buriedEmergency).
       intent item = notfall \<or> next_action item = notfall_protokoll"
    by (simp add: buriedEmergency_def mkResponse_def lowEmergencyItem_def mkItem_def)
  have f: "filter (\<lambda>item. intent item = notfall \<or> next_action item = notfall_protokoll)
             (items buriedEmergency) = [lowEmergencyItem]"
    by (simp add: buriedEmergency_def mkResponse_def lowEmergencyItem_def mkItem_def)
  have s: "{item \<in> set (items buriedEmergency).
             intent item = notfall \<or> next_action item = notfall_protokoll} = {lowEmergencyItem}"
    using f set_filter [of "\<lambda>item. intent item = notfall \<or> next_action item = notfall_protokoll"
                          "items buriedEmergency"]
    by simp
  have c: "confidence lowEmergencyItem = 0.1"
    by (simp add: lowEmergencyItem_def mkItem_def)
  have g: "gate DEFAULT_CONFIG buriedEmergency (Some ''Ich brauche einen Termin'')
       = EMERGENCY [lowEmergencyItem] ''Notfall-Intent erkannt'' high"
    using gate_emergency_item [OF h, of DEFAULT_CONFIG "Some ''Ich brauche einen Termin''"]
    unfolding f s by (simp add: c)
  show ?thesis by (rule g)
qed

section \<open>The gate: the keyword scan\<close>

text \<open>\<open>str_includes\<close> is containment as a contiguous run, and the test of the keyword
  filter is containment up to the case of the letters.\<close>

lemma str_includes_iff: "str_includes s t \<longleftrightarrow> (\<exists>pre post. s = pre @ t @ post)"
proof -
  have "str_includes s t \<longleftrightarrow> sublist t s"
    by (induction s) (simp_all add: sublist_Cons_right)
  then show ?thesis by (simp add: sublist_def)
qed

lemma toLowerCase_append: "toLowerCase (a @ b) = toLowerCase a @ toLowerCase b"
  by (simp add: toLowerCase_def)

lemma contains_ignoring_case_iff:
  "str_includes (toLowerCase txt) (toLowerCase kw) \<longleftrightarrow>
     (\<exists>pre mid post. txt = pre @ mid @ post \<and> toLowerCase mid = toLowerCase kw)"
proof
  assume "str_includes (toLowerCase txt) (toLowerCase kw)"
  then obtain p q where pq: "map lower_char txt = p @ map lower_char kw @ q"
    by (auto simp: str_includes_iff toLowerCase_def)
  from pq [unfolded map_eq_append_conv]
  obtain pre rest where a: "txt = pre @ rest" "map lower_char kw @ q = map lower_char rest"
    by blast
  from a(2) [symmetric, unfolded map_eq_append_conv]
  obtain mid post where b: "rest = mid @ post" "map lower_char kw = map lower_char mid"
    by blast
  show "\<exists>pre mid post. txt = pre @ mid @ post \<and> toLowerCase mid = toLowerCase kw"
    using a b by (auto simp: toLowerCase_def)
next
  assume "\<exists>pre mid post. txt = pre @ mid @ post \<and> toLowerCase mid = toLowerCase kw"
  then obtain pre mid post where "txt = pre @ mid @ post" "toLowerCase mid = toLowerCase kw"
    by blast
  then have "toLowerCase txt = toLowerCase pre @ toLowerCase kw @ toLowerCase post"
    by (simp add: toLowerCase_append)
  then show "str_includes (toLowerCase txt) (toLowerCase kw)"
    unfolding str_includes_iff by blast
qed

lemma foundKeywords_hit:
  assumes "kw \<in> set (emergencyKeywords cfg)"
    and "txt = pre @ mid @ post" and "toLowerCase mid = toLowerCase kw"
  shows "kw \<in> set (foundKeywords cfg txt)"
  using assms contains_ignoring_case_iff [of "txt" kw] by (auto simp: foundKeywords_def)

lemma checkForEmergency_keywords:
  assumes "filter isEmergencyItem (items resp) = []" and "txt \<noteq> []"
    and "foundKeywords cfg txt \<noteq> []"
  shows "checkForEmergency cfg resp (Some txt) =
     Some (EMERGENCY [keywordItem txt (foundKeywords cfg txt)]
             (''Notfall-Keywords erkannt: '' @ join '', '' (foundKeywords cfg txt))
             (if list_ex (\<lambda>kw. kw \<in> set criticalKeywords) (foundKeywords cfg txt)
              then critical else high))"
  using assms by (simp add: checkForEmergency_def Let_def)

lemma noEmergencyItem_filter:
  "(\<forall>item \<in> set its. intent item \<noteq> notfall \<and> next_action item \<noteq> notfall_protokoll)
     \<longleftrightarrow> filter isEmergencyItem its = []"
  by (auto simp: filter_empty_conv isEmergencyItem_def)

text \<open>
  C2. For a response without emergency item and a supplied raw text that contains a
  configured keyword up to the case of its letters, the gate returns \<open>EMERGENCY\<close> with
  exactly one synthesized item of intent \<open>notfall\<close>, confidence 0.9 and next action
  \<open>notfall_protokoll\<close>. The guard \<open>if (originalText)\<close> reads the empty string as no text
  supplied, so a supplied text is a non-empty one.
\<close>

theorem gate_keyword_safety_net:
  assumes "\<forall>item \<in> set (items resp). intent item \<noteq> notfall \<and> next_action item \<noteq> notfall_protokoll"
    and "kw \<in> set (emergencyKeywords cfg)"
    and "txt = pre @ mid @ post" and "toLowerCase mid = toLowerCase kw"
    and "txt \<noteq> []"
  shows "\<exists>item reason urgency.
           gate cfg resp (Some txt) = EMERGENCY [item] reason urgency
         \<and> intent item = notfall \<and> confidence item = 0.9
         \<and> next_action item = notfall_protokoll"
proof -
  have f: "filter isEmergencyItem (items resp) = []"
    using assms(1) by (simp add: noEmergencyItem_filter)
  have k: "foundKeywords cfg txt \<noteq> []"
    using foundKeywords_hit [OF assms(2-4)] by auto
  show ?thesis
    using checkForEmergency_keywords [OF f assms(5) k]
    by (simp add: gate_def keywordItem_def)
qed

theorem gate_keyword_safety_net_witness:
  "\<exists>item reason urgency.
     gate DEFAULT_CONFIG plainInfo (Some ''Patient ist BEWUSSTLOS'') = EMERGENCY [item] reason urgency
     \<and> intent item = notfall \<and> confidence item = 0.9 \<and> next_action item = notfall_protokoll"
proof -
  have h1: "\<forall>item \<in> set (items plainInfo).
              intent item \<noteq> notfall \<and> next_action item \<noteq> notfall_protokoll"
    by (simp add: plainInfo_def mkResponse_def mkItem_def)
  have h2: "''bewusstlos'' \<in> set (emergencyKeywords DEFAULT_CONFIG)"
    by (simp add: DEFAULT_CONFIG_def EMERGENCY_KEYWORDS_def)
  have h3: "''Patient ist BEWUSSTLOS'' = ''Patient ist '' @ ''BEWUSSTLOS'' @ ''''"
    by simp
  have h4: "toLowerCase ''BEWUSSTLOS'' = toLowerCase ''bewusstlos''"
    by code_simp
  have h5: "''Patient ist BEWUSSTLOS'' \<noteq> ''''"
    by simp
  show ?thesis
    by (rule gate_keyword_safety_net [OF h1 h2 h3 h4 h5])
qed

text \<open>
  C10. The default keyword list holds the generic words \<open>dringend\<close>, \<open>sofort\<close>,
  \<open>akut\<close> and \<open>schmerzen\<close>; so under the default configuration a response without
  emergency item is gated to \<open>EMERGENCY\<close> for every raw text that contains
  \<open>dringend\<close> up to the case of its letters.
\<close>

theorem default_keywords_generic_urgency:
  assumes "\<forall>item \<in> set (items resp). intent item \<noteq> notfall \<and> next_action item \<noteq> notfall_protokoll"
    and "txt = pre @ mid @ post" and "toLowerCase mid = ''dringend''"
  shows "set [''dringend'', ''sofort'', ''akut'', ''schmerzen''] \<subseteq> set (emergencyKeywords DEFAULT_CONFIG)
       \<and> (\<exists>its reason urgency. gate DEFAULT_CONFIG resp (Some txt) = EMERGENCY its reason urgency)"
proof -
  have m: "set [''dringend'', ''sofort'', ''akut'', ''schmerzen''] \<subseteq> set (emergencyKeywords DEFAULT_CONFIG)"
    by (simp add: DEFAULT_CONFIG_def EMERGENCY_KEYWORDS_def)
  have l: "toLowerCase ''dringend'' = ''dringend''"
    by code_simp
  have ne: "txt \<noteq> []"
    using assms(2,3) by (auto simp: toLowerCase_def)
  have f: "filter isEmergencyItem (items resp) = []"
    using assms(1) by (simp add: noEmergencyItem_filter)
  have d: "''dringend'' \<in> set (emergencyKeywords DEFAULT_CONFIG)"
    using m by simp
  have "''dringend'' \<in> set (foundKeywords DEFAULT_CONFIG txt)"
    using assms(3) l by (intro foundKeywords_hit [OF d assms(2)]) simp
  then have k: "foundKeywords DEFAULT_CONFIG txt \<noteq> []"
    by auto
  show ?thesis
    using m checkForEmergency_keywords [OF f ne k] by (simp add: gate_def)
qed

theorem default_keywords_generic_urgency_witness:
  "(\<exists>its reason urgency.
      gate DEFAULT_CONFIG plainInfo (Some ''Bitte DRINGEND um Antwort'') = EMERGENCY its reason urgency)
   \<and> foundKeywords DEFAULT_CONFIG ''Bitte DRINGEND um Antwort'' = [''dringend'']"
proof -
  have h1: "\<forall>item \<in> set (items plainInfo).
              intent item \<noteq> notfall \<and> next_action item \<noteq> notfall_protokoll"
    by (simp add: plainInfo_def mkResponse_def mkItem_def)
  have h2: "''Bitte DRINGEND um Antwort'' = ''Bitte '' @ ''DRINGEND'' @ '' um Antwort''"
    by simp
  have h3: "toLowerCase ''DRINGEND'' = ''dringend''"
    by code_simp
  have k: "foundKeywords DEFAULT_CONFIG ''Bitte DRINGEND um Antwort'' = [''dringend'']"
    by code_simp
  show ?thesis
    using default_keywords_generic_urgency [OF h1 h2 h3] k by blast
qed

section \<open>The gate: confidence thresholds and required slots\<close>

lemma set_set_add: "set (set_add x acc) = insert x (set acc)"
  by (auto simp: set_add_def)

lemma distinct_set_add: "distinct acc \<Longrightarrow> distinct (set_add x acc)"
  by (auto simp: set_add_def)

lemma set_fold_required:
  "set (fold (\<lambda>r a. if P r then set_add r a else a) rs acc) = set acc \<union> {r \<in> set rs. P r}"
  by (induction rs arbitrary: acc) (auto simp: set_set_add)

lemma distinct_fold_required:
  "distinct acc \<Longrightarrow> distinct (fold (\<lambda>r a. if P r then set_add r a else a) rs acc)"
  by (induction rs arbitrary: acc) (simp_all add: distinct_set_add)

lemma addMissingOfItem_set:
  "set (addMissingOfItem cfg item acc) =
     set acc \<union> {name \<in> set (requiredSlotsOf cfg (intent item)).
                   slotMissing (slot_lookup (slots item) name)}"
  unfolding addMissingOfItem_def by (rule set_fold_required)

lemma addMissingOfItem_distinct:
  "distinct acc \<Longrightarrow> distinct (addMissingOfItem cfg item acc)"
  unfolding addMissingOfItem_def by (rule distinct_fold_required)

lemma fold_addMissing_distinct:
  "distinct acc \<Longrightarrow> distinct (fold (addMissingOfItem cfg) its acc)"
  by (induction its arbitrary: acc) (simp_all add: addMissingOfItem_distinct)

lemma fold_addMissing_set:
  "set (fold (addMissingOfItem cfg) its acc) =
     set acc \<union> (\<Union>item \<in> set its. {name \<in> set (requiredSlotsOf cfg (intent item)).
                                      slotMissing (slot_lookup (slots item) name)})"
proof (induction its arbitrary: acc)
  case Nil
  then show ?case by simp
next
  case (Cons item its)
  show ?case
    using Cons.IH [of "addMissingOfItem cfg item acc"]
    by (simp add: addMissingOfItem_set Un_assoc)
qed

text \<open>The test of the source on a nullable string slot against the description of a
  filled slot.\<close>

lemma is_js_space_whiteSpace: "is_js_space c \<longleftrightarrow> c \<in> set whiteSpace"
proof -
  have oc: "(of_char (CHR 0x09) :: nat) = 9" "(of_char (CHR 0x0A) :: nat) = 10"
    "(of_char (CHR 0x0B) :: nat) = 11" "(of_char (CHR 0x0C) :: nat) = 12"
    "(of_char (CHR 0x0D) :: nat) = 13" "(of_char (CHR 0x20) :: nat) = 32"
    "(of_char (CHR 0xA0) :: nat) = 160"
    by simp_all
  have e: "((of_char c :: nat) = of_char d) = (c = d)" for d :: char
    by simp
  show ?thesis
    unfolding is_js_space_def whiteSpace_def
    using e [of "CHR 0x09"] e [of "CHR 0x0A"] e [of "CHR 0x0B"] e [of "CHR 0x0C"]
      e [of "CHR 0x0D"] e [of "CHR 0x20"] e [of "CHR 0xA0"]
    unfolding oc by auto
qed

lemma trim_empty_iff: "trim s = [] \<longleftrightarrow> (\<forall>c \<in> set s. is_js_space c)"
proof -
  have "trim s = [] \<longleftrightarrow> (\<forall>c \<in> set (dropWhile is_js_space s). is_js_space c)"
    by (simp add: trim_def dropWhile_eq_Nil_conv)
  also have "\<dots> \<longleftrightarrow> dropWhile is_js_space s = []"
  proof
    assume all: "\<forall>c \<in> set (dropWhile is_js_space s). is_js_space c"
    show "dropWhile is_js_space s = []"
    proof (rule ccontr)
      assume ne: "dropWhile is_js_space s \<noteq> []"
      then have "\<not> is_js_space (hd (dropWhile is_js_space s))"
        by (rule hd_dropWhile)
      moreover have "hd (dropWhile is_js_space s) \<in> set (dropWhile is_js_space s)"
        using ne by simp
      ultimately show False using all by blast
    qed
  next
    assume "dropWhile is_js_space s = []"
    then show "\<forall>c \<in> set (dropWhile is_js_space s). is_js_space c"
      by (simp only: list.set ball_empty)
  qed
  also have "\<dots> \<longleftrightarrow> (\<forall>c \<in> set s. is_js_space c)"
    by (simp add: dropWhile_eq_Nil_conv)
  finally show ?thesis .
qed

lemma slotMissing_nullable: "slotMissing (of_nullable v) \<longleftrightarrow> \<not> slotFilled v"
  by (cases v)
     (auto simp: of_nullable_def slotFilled_def trim_empty_iff is_js_space_whiteSpace list_ex_iff)

lemma missing_of_item_default:
  "{name \<in> set (requiredSlotsOf DEFAULT_CONFIG (intent item)).
      slotMissing (slot_lookup (slots item) name)} = set (missingOfItem item)"
proof -
  have r: "requiredSlotsOf DEFAULT_CONFIG i = the (DEFAULT_requiredSlots i)" for i
    by (cases i) (simp_all add: requiredSlotsOf_def DEFAULT_CONFIG_def)
  have l: "slot_lookup s ''datum'' = of_nullable (datum s)"
    "slot_lookup s ''zeit'' = of_nullable (zeit s)"
    "slot_lookup s ''medikament'' = of_nullable (medikament s)"
    "slot_lookup s ''grund'' = of_nullable (grund s)" for s
    by (simp_all add: slot_lookup_def)
  have "set (filter (\<lambda>name. slotMissing (slot_lookup (slots item) name))
                    (requiredSlotsOf DEFAULT_CONFIG (intent item))) = set (missingOfItem item)"
    by (cases "intent item")
       (simp_all add: r l missingOfItem_def lacking_def slotMissing_nullable)
  then show ?thesis by simp
qed

lemma findMissingSlots_default:
  "set (findMissingSlots DEFAULT_CONFIG its) = set (missingRequiredSlots its)"
  "distinct (findMissingSlots DEFAULT_CONFIG its)"
  by (simp_all add: findMissingSlots_def fold_addMissing_set fold_addMissing_distinct
      missing_of_item_default missingRequiredSlots_def)

lemma checkForEmergency_none:
  assumes "filter isEmergencyItem (items resp) = []"
    and "\<forall>txt. originalText = Some txt \<longrightarrow>
           (\<forall>kw \<in> set (emergencyKeywords cfg). \<not> str_includes (toLowerCase txt) (toLowerCase kw))"
  shows "checkForEmergency cfg resp originalText = None"
proof (cases originalText)
  case None
  then show ?thesis using assms(1) by (simp add: checkForEmergency_def)
next
  case (Some t)
  then have "foundKeywords cfg t = []"
    using assms(2) by (simp add: foundKeywords_def filter_empty_conv)
  then show ?thesis using assms(1) Some by (simp add: checkForEmergency_def)
qed

text \<open>
  C3. Under the default configuration, for a response without emergency item, a raw text
  (if any) without emergency keyword and \<open>requires_human = false\<close>, with \<open>c\<close> the
  declared \<open>overall.max_confidence\<close> and \<open>missing\<close> the required slots that the items
  lack (a slot that holds a string with a character other than white space is present):
  from 0.85 on (0.85 included) the gate returns \<open>AUTO_PROCESS\<close> when no required slot is
  missing, and \<open>ASK_CONFIRM\<close> with \<open>missingSlots\<close> holding exactly the missing required
  slot names, each once, otherwise; from 0.5 up to 0.85 it returns \<open>ASK_CONFIRM\<close>, with
  the missing names when there are any and without \<open>missingSlots\<close> when there are none;
  below 0.5 it returns \<open>ESCALATE\<close>.
\<close>

theorem gate_thresholds_default:
  assumes "\<forall>item \<in> set (items resp). intent item \<noteq> notfall \<and> next_action item \<noteq> notfall_protokoll"
    and "\<forall>txt. originalText = Some txt \<longrightarrow>
           (\<forall>kw \<in> set EMERGENCY_KEYWORDS. \<not> str_includes (toLowerCase txt) (toLowerCase kw))"
    and "\<not> requires_human (overall resp)"
    and "c = max_confidence (overall resp)"
    and "missing = missingRequiredSlots (items resp)"
  shows "(c \<ge> 0.85 \<and> missing = [] \<longrightarrow>
            (\<exists>reason. gate DEFAULT_CONFIG resp originalText = AUTO_PROCESS (items resp) c reason))
       \<and> (c \<ge> 0.85 \<and> missing \<noteq> [] \<longrightarrow>
            (\<exists>reason ms. gate DEFAULT_CONFIG resp originalText
                            = ASK_CONFIRM (items resp) reason c (Some ms)
                        \<and> set ms = set missing \<and> distinct ms))
       \<and> (0.5 \<le> c \<and> c < 0.85 \<and> missing = [] \<longrightarrow>
            (\<exists>reason. gate DEFAULT_CONFIG resp originalText
                         = ASK_CONFIRM (items resp) reason c None))
       \<and> (0.5 \<le> c \<and> c < 0.85 \<and> missing \<noteq> [] \<longrightarrow>
            (\<exists>reason ms. gate DEFAULT_CONFIG resp originalText
                            = ASK_CONFIRM (items resp) reason c (Some ms)
                        \<and> set ms = set missing \<and> distinct ms))
       \<and> (c < 0.5 \<longrightarrow>
            (\<exists>reason. gate DEFAULT_CONFIG resp originalText = ESCALATE (items resp) reason c))"
proof -
  have f: "filter isEmergencyItem (items resp) = []"
    using assms(1) by (simp add: noEmergencyItem_filter)
  have k: "emergencyKeywords DEFAULT_CONFIG = EMERGENCY_KEYWORDS"
    by (simp add: DEFAULT_CONFIG_def)
  have ce: "checkForEmergency DEFAULT_CONFIG resp originalText = None"
    using checkForEmergency_none [OF f, of originalText DEFAULT_CONFIG] assms(2) k by simp
  have th: "autoProcessThreshold DEFAULT_CONFIG = 0.85" "confirmThreshold DEFAULT_CONFIG = 0.5"
    by (simp_all add: DEFAULT_CONFIG_def)
  have m: "set (findMissingSlots DEFAULT_CONFIG (items resp)) = set missing"
    by (simp add: findMissingSlots_default assms(5))
  have d: "distinct (findMissingSlots DEFAULT_CONFIG (items resp))"
    by (rule findMissingSlots_default)
  have e: "findMissingSlots DEFAULT_CONFIG (items resp) = [] \<longleftrightarrow> missing = []"
    using m by (metis set_empty)
  show ?thesis
    using assms(3) e m d
    by (simp add: gate_def ce th Let_def assms(4) [symmetric])
qed

theorem gate_thresholds_default_witness:
  "(\<exists>reason. gate DEFAULT_CONFIG (appointment (Some ''morgen'') (Some ''10:00'') 0.9)
                 (Some ''Guten Tag, ich brauche einen Termin'')
               = AUTO_PROCESS (items (appointment (Some ''morgen'') (Some ''10:00'') 0.9)) 0.9 reason)
   \<and> (\<exists>reason ms. gate DEFAULT_CONFIG (appointment (Some ''  '') (Some ''10:00'') 0.9) None
               = ASK_CONFIRM (items (appointment (Some ''  '') (Some ''10:00'') 0.9)) reason 0.9 (Some ms)
             \<and> set ms = set [''datum''] \<and> distinct ms)
   \<and> (\<exists>reason ms. gate DEFAULT_CONFIG (appointment None None 0.9) None
               = ASK_CONFIRM (items (appointment None None 0.9)) reason 0.9 (Some ms)
             \<and> set ms = set [''datum'', ''zeit''] \<and> distinct ms)
   \<and> (\<exists>reason. gate DEFAULT_CONFIG boundaryInfo None = AUTO_PROCESS (items boundaryInfo) 0.85 reason)
   \<and> (\<exists>reason. gate DEFAULT_CONFIG (appointment (Some ''morgen'') (Some ''10:00'') 0.84999) None
               = ASK_CONFIRM (items (appointment (Some ''morgen'') (Some ''10:00'') 0.84999))
                   reason 0.84999 None)
   \<and> (\<exists>reason ms. gate DEFAULT_CONFIG (appointment None (Some ''10:00'') 0.6) None
               = ASK_CONFIRM (items (appointment None (Some ''10:00'') 0.6)) reason 0.6 (Some ms)
             \<and> set ms = set [''datum''] \<and> distinct ms)
   \<and> (\<exists>reason. gate DEFAULT_CONFIG (appointment (Some ''morgen'') (Some ''10:00'') 0.49) None
               = ESCALATE (items (appointment (Some ''morgen'') (Some ''10:00'') 0.49)) reason 0.49)"
proof -
  have a1: "\<forall>item \<in> set (items (appointment d z c)).
              intent item \<noteq> notfall \<and> next_action item \<noteq> notfall_protokoll" for d z c
    by (simp add: appointment_def mkResponse_def mkItem_def)
  have "foundKeywords DEFAULT_CONFIG ''Guten Tag, ich brauche einen Termin'' = []"
    by code_simp
  then have a2: "\<forall>txt. Some ''Guten Tag, ich brauche einen Termin'' = Some txt \<longrightarrow>
           (\<forall>kw \<in> set EMERGENCY_KEYWORDS. \<not> str_includes (toLowerCase txt) (toLowerCase kw))"
    by (simp add: foundKeywords_def filter_empty_conv DEFAULT_CONFIG_def)
  have n2: "\<forall>txt. None = Some txt \<longrightarrow>
           (\<forall>kw \<in> set EMERGENCY_KEYWORDS. \<not> str_includes (toLowerCase txt) (toLowerCase kw))"
    by simp
  have a3: "\<not> requires_human (overall (appointment d z c))" for d z c
    by (simp add: appointment_def mkResponse_def)
  have a4: "c = max_confidence (overall (appointment d z c))" for d z c
    by (simp add: appointment_def mkResponse_def)
  have filled: "[] = missingRequiredSlots (items (appointment (Some ''morgen'') (Some ''10:00'') c))"
    for c
    by (simp add: missingRequiredSlots_def missingOfItem_def lacking_def slotFilled_def
        whiteSpace_def appointment_def mkResponse_def mkItem_def emptySlots_def)
  have blank: "[''datum''] = missingRequiredSlots (items (appointment (Some ''  '') (Some ''10:00'') 0.9))"
    by (simp add: missingRequiredSlots_def missingOfItem_def lacking_def slotFilled_def
        whiteSpace_def appointment_def mkResponse_def mkItem_def emptySlots_def)
  have bare: "[''datum'', ''zeit''] = missingRequiredSlots (items (appointment None None 0.9))"
    by (simp add: missingRequiredSlots_def missingOfItem_def lacking_def slotFilled_def
        appointment_def mkResponse_def mkItem_def emptySlots_def)
  have half: "[''datum''] = missingRequiredSlots (items (appointment None (Some ''10:00'') 0.6))"
    by (simp add: missingRequiredSlots_def missingOfItem_def lacking_def slotFilled_def
        whiteSpace_def appointment_def mkResponse_def mkItem_def emptySlots_def)
  have b1: "\<forall>item \<in> set (items boundaryInfo).
              intent item \<noteq> notfall \<and> next_action item \<noteq> notfall_protokoll"
    by (simp add: boundaryInfo_def mkResponse_def mkItem_def)
  have b3: "\<not> requires_human (overall boundaryInfo)"
    by (simp add: boundaryInfo_def mkResponse_def)
  have b4: "0.85 = max_confidence (overall boundaryInfo)"
    by (simp add: boundaryInfo_def mkResponse_def)
  have b5: "[] = missingRequiredSlots (items boundaryInfo)"
    by (simp add: missingRequiredSlots_def missingOfItem_def boundaryInfo_def mkResponse_def
        mkItem_def)
  have w1: "\<exists>reason. gate DEFAULT_CONFIG (appointment (Some ''morgen'') (Some ''10:00'') 0.9)
                 (Some ''Guten Tag, ich brauche einen Termin'')
               = AUTO_PROCESS (items (appointment (Some ''morgen'') (Some ''10:00'') 0.9)) 0.9 reason"
    using gate_thresholds_default [OF a1 a2 a3 a4 filled, THEN conjunct1] by simp
  have w2: "\<exists>reason ms. gate DEFAULT_CONFIG (appointment (Some ''  '') (Some ''10:00'') 0.9) None
               = ASK_CONFIRM (items (appointment (Some ''  '') (Some ''10:00'') 0.9)) reason 0.9 (Some ms)
             \<and> set ms = set [''datum''] \<and> distinct ms"
    using gate_thresholds_default [OF a1 n2 a3 a4 blank, THEN conjunct2, THEN conjunct1] by simp
  have w3: "\<exists>reason ms. gate DEFAULT_CONFIG (appointment None None 0.9) None
               = ASK_CONFIRM (items (appointment None None 0.9)) reason 0.9 (Some ms)
             \<and> set ms = set [''datum'', ''zeit''] \<and> distinct ms"
    using gate_thresholds_default [OF a1 n2 a3 a4 bare, THEN conjunct2, THEN conjunct1] by simp
  have w4: "\<exists>reason. gate DEFAULT_CONFIG boundaryInfo None
               = AUTO_PROCESS (items boundaryInfo) 0.85 reason"
    using gate_thresholds_default [OF b1 n2 b3 b4 b5, THEN conjunct1] by simp
  have w5: "\<exists>reason. gate DEFAULT_CONFIG (appointment (Some ''morgen'') (Some ''10:00'') 0.84999) None
               = ASK_CONFIRM (items (appointment (Some ''morgen'') (Some ''10:00'') 0.84999))
                   reason 0.84999 None"
    using gate_thresholds_default
            [OF a1 n2 a3 a4 filled, THEN conjunct2, THEN conjunct2, THEN conjunct1]
    by simp
  have w6: "\<exists>reason ms. gate DEFAULT_CONFIG (appointment None (Some ''10:00'') 0.6) None
               = ASK_CONFIRM (items (appointment None (Some ''10:00'') 0.6)) reason 0.6 (Some ms)
             \<and> set ms = set [''datum''] \<and> distinct ms"
    using gate_thresholds_default
            [OF a1 n2 a3 a4 half, THEN conjunct2, THEN conjunct2, THEN conjunct2, THEN conjunct1]
    by simp
  have w7: "\<exists>reason. gate DEFAULT_CONFIG (appointment (Some ''morgen'') (Some ''10:00'') 0.49) None
               = ESCALATE (items (appointment (Some ''morgen'') (Some ''10:00'') 0.49)) reason 0.49"
    using gate_thresholds_default
            [OF a1 n2 a3 a4 filled, THEN conjunct2, THEN conjunct2, THEN conjunct2, THEN conjunct2]
    by simp
  show ?thesis
    using w1 w2 w3 w4 w5 w6 w7 by (simp only: simp_thms)
qed

section \<open>Compatibility of intents\<close>

lemma areIntentsCompatible_iff:
  "areIntentsCompatible intents \<longleftrightarrow>
     \<not> (notfall \<in> set intents \<and> length intents > 1)
     \<and> ((\<exists>i \<in> set intents. i \<in> set terminIntents) \<longrightarrow> set intents \<subseteq> set compatibleWithTermin)"
  by (auto simp: areIntentsCompatible_def list_ex_iff list_all_iff)

lemma two_members_length:
  assumes "a \<in> set xs" and "b \<in> set xs" and "a \<noteq> b"
  shows "length xs > 1"
proof -
  have "card {a, b} \<le> card (set xs)"
    using assms by (intro card_mono) auto
  then have "2 \<le> card (set xs)" using assms(3) by simp
  then show ?thesis using card_length [of xs] by linarith
qed

text \<open>
  C8 (amended). \<open>areIntentsCompatible\<close> flags a combination incompatible when it holds
  \<open>notfall\<close> together with another intent; a combination drawn from the appointment
  family, \<open>rezept_anfordern\<close> and \<open>allgemeine_info\<close> is compatible; a combination with
  an appointment intent and an intent outside these five is incompatible; and every
  combination without \<open>notfall\<close> and without appointment intent is compatible.
\<close>

theorem areIntentsCompatible_rules:
  "(notfall \<in> set intents \<and> (\<exists>i \<in> set intents. i \<noteq> notfall) \<longrightarrow> \<not> areIntentsCompatible intents)
   \<and> (set intents \<subseteq> {termin_anfragen, termin_verschieben, termin_absagen,
                        rezept_anfordern, allgemeine_info} \<longrightarrow> areIntentsCompatible intents)
   \<and> ((\<exists>i \<in> set intents. i \<in> {termin_anfragen, termin_verschieben, termin_absagen})
        \<and> (\<exists>j \<in> set intents. j \<notin> {termin_anfragen, termin_verschieben, termin_absagen,
                                       rezept_anfordern, allgemeine_info})
        \<longrightarrow> \<not> areIntentsCompatible intents)
   \<and> (notfall \<notin> set intents
        \<and> (\<forall>i \<in> set intents. i \<notin> {termin_anfragen, termin_verschieben, termin_absagen})
        \<longrightarrow> areIntentsCompatible intents)"
proof -
  have t: "set terminIntents = {termin_anfragen, termin_verschieben, termin_absagen}"
    by (auto simp: terminIntents_def)
  have c: "set compatibleWithTermin = {termin_anfragen, termin_verschieben, termin_absagen,
                        rezept_anfordern, allgemeine_info}"
    by (auto simp: compatibleWithTermin_def terminIntents_def)
  have 1: "notfall \<in> set intents \<and> (\<exists>i \<in> set intents. i \<noteq> notfall) \<longrightarrow> \<not> areIntentsCompatible intents"
    using two_members_length [of notfall intents] by (auto simp: areIntentsCompatible_def)
  have 2: "set intents \<subseteq> {termin_anfragen, termin_verschieben, termin_absagen,
                        rezept_anfordern, allgemeine_info} \<longrightarrow> areIntentsCompatible intents"
    unfolding areIntentsCompatible_iff c by auto
  have 3: "(\<exists>i \<in> set intents. i \<in> {termin_anfragen, termin_verschieben, termin_absagen})
        \<and> (\<exists>j \<in> set intents. j \<notin> {termin_anfragen, termin_verschieben, termin_absagen,
                                       rezept_anfordern, allgemeine_info})
        \<longrightarrow> \<not> areIntentsCompatible intents"
    unfolding areIntentsCompatible_iff c t by blast
  have 4: "notfall \<notin> set intents
        \<and> (\<forall>i \<in> set intents. i \<notin> {termin_anfragen, termin_verschieben, termin_absagen})
        \<longrightarrow> areIntentsCompatible intents"
    unfolding areIntentsCompatible_iff c t by blast
  show ?thesis using 1 2 3 4 by blast
qed

theorem areIntentsCompatible_rules_witness:
  "\<not> areIntentsCompatible [notfall, termin_anfragen]
   \<and> areIntentsCompatible [termin_anfragen, rezept_anfordern]
   \<and> \<not> areIntentsCompatible [termin_anfragen, befundauskunft]
   \<and> areIntentsCompatible [arbeitsunfaehigkeit, ueberweisung]"
  using areIntentsCompatible_rules [of "[notfall, termin_anfragen]"]
    areIntentsCompatible_rules [of "[termin_anfragen, rezept_anfordern]"]
    areIntentsCompatible_rules [of "[termin_anfragen, befundauskunft]"]
    areIntentsCompatible_rules [of "[arbeitsunfaehigkeit, ueberweisung]"]
  by simp

text \<open>The claim as stated calls every other mixture of distinct intents incompatible;
  two result inquiries of different kind are compatible.\<close>

theorem areIntentsCompatible_other_mixture_counterexample:
  "befundauskunft \<noteq> laborbefund \<and> areIntentsCompatible [befundauskunft, laborbefund]"
  by code_simp

section \<open>The processing plan\<close>

lemma splitByIntent_snoc: "splitByIntent ar (its @ [item]) = splitStep ar item (splitByIntent ar its)"
  by (simp add: splitByIntent_def)

lemma pushItem_bucketOf:
  assumes "intent item = i"
  shows "pushItem ar item (bucketOf ar its i) = bucketOf ar (its @ [item]) i"
  using assms by (simp add: pushItem_def bucketOf_def Let_def )

lemma pushItem_newBucket:
  assumes "intent item \<notin> intent ` set its"
  shows "pushItem ar item (newBucket (intent item)) = bucketOf ar (its @ [item]) (intent item)"
proof -
  have "\<forall>x \<in> set its. intent x \<noteq> intent item"
    using assms by (metis imageI)
  then have "filter (\<lambda>x. intent x = intent item) its = []"
    by (simp add: filter_empty_conv)
  then show ?thesis
    by (simp add: pushItem_def newBucket_def bucketOf_def Let_def)
qed

lemma bucketOf_other:
  assumes "intent item \<noteq> i"
  shows "bucketOf ar (its @ [item]) i = bucketOf ar its i"
  using assms by (simp add: bucketOf_def)

lemma splitByIntent_buckets:
  "\<exists>order. splitByIntent ar its = map (bucketOf ar its) order
           \<and> distinct order \<and> set order = intent ` set its"
proof (induction its rule: rev_induct)
  case Nil
  then show ?case by (simp add: splitByIntent_def)
next
  case (snoc item its)
  then obtain order where o: "splitByIntent ar its = map (bucketOf ar its) order"
    "distinct order" "set order = intent ` set its"
    by blast
  have bi: "bucket_intent (bucketOf ar xs i) = i" for xs i
    by (simp add: bucketOf_def Let_def)
  have upd: "map (\<lambda>b. if bucket_intent b = intent item then pushItem ar item b else b)
               (map (bucketOf ar its) ord) = map (bucketOf ar (its @ [item])) ord" for ord
    by (induction ord) (auto simp: bi pushItem_bucketOf bucketOf_other)
  show ?case
  proof (cases "intent item \<in> set order")
    case True
    then have ex: "list_ex (\<lambda>b. bucket_intent b = intent item) (map (bucketOf ar its) order)"
      by (auto simp: list_ex_iff bi)
    have "splitByIntent ar (its @ [item]) = map (bucketOf ar (its @ [item])) order"
      using ex upd [of order] by (simp add: splitByIntent_snoc splitStep_def o(1) Let_def)
    then show ?thesis using o(2,3) True by auto
  next
    case False
    then have nex: "\<not> list_ex (\<lambda>b. bucket_intent b = intent item) (map (bucketOf ar its) order)"
      by (auto simp: list_ex_iff bi)
    have fresh: "intent item \<notin> intent ` set its" using False o(3) by simp
    have nb: "bucket_intent (newBucket (intent item)) = intent item"
      by (simp add: newBucket_def)
    have "splitByIntent ar (its @ [item]) = map (bucketOf ar (its @ [item])) (order @ [intent item])"
      using nex upd [of order] pushItem_newBucket [OF fresh]
      by (simp add: splitByIntent_snoc splitStep_def o(1) Let_def nb)
    then show ?thesis using o(2,3) False
      by (intro exI [of _ "order @ [intent item]"]) auto
  qed
qed


lemma compareBuckets_le: "compareBuckets a b \<le> 0 \<longleftrightarrow> bucketBefore a b"
  by (auto simp: compareBuckets_def bucketBefore_def)

lemma bucketBefore_total: "\<not> bucketBefore a b \<Longrightarrow> bucketBefore b a"
  by (auto simp: bucketBefore_def)

lemma bucketBefore_trans: "bucketBefore a b \<Longrightarrow> bucketBefore b c \<Longrightarrow> bucketBefore a c"
  by (auto simp: bucketBefore_def)

lemma insertBucket_split:
  "\<exists>ys zs. bs = ys @ zs \<and> insertBucket a bs = ys @ a # zs"
proof (induction bs)
  case Nil
  then show ?case by simp
next
  case (Cons b bs)
  show ?case
  proof (cases "compareBuckets a b \<le> 0")
    case True
    then have "b # bs = [] @ (b # bs) \<and> insertBucket a (b # bs) = [] @ a # (b # bs)"
      by simp
    then show ?thesis by blast
  next
    case False
    from Cons obtain ys zs where "bs = ys @ zs" "insertBucket a bs = ys @ a # zs"
      by blast
    then have "b # bs = (b # ys) @ zs \<and> insertBucket a (b # bs) = (b # ys) @ a # zs"
      using False by simp
    then show ?thesis by blast
  qed
qed

lemma set_insertBucket: "set (insertBucket a bs) = insert a (set bs)"
  using insertBucket_split [of bs a] by auto

lemma sorted_insertBucket:
  "sorted_wrt bucketBefore bs \<Longrightarrow> sorted_wrt bucketBefore (insertBucket a bs)"
proof (induction bs)
  case Nil
  then show ?case by simp
next
  case (Cons b bs)
  show ?case
  proof (cases "compareBuckets a b \<le> 0")
    case True
    then have ab: "bucketBefore a b" by (simp add: compareBuckets_le)
    have "\<forall>x \<in> set bs. bucketBefore a x"
      using Cons.prems ab bucketBefore_trans by auto
    then show ?thesis using True ab Cons.prems by simp
  next
    case False
    then have ba: "bucketBefore b a"
      using bucketBefore_total by (simp add: compareBuckets_le)
    have "sorted_wrt bucketBefore (insertBucket a bs)"
      using Cons by simp
    then show ?thesis
      using False ba Cons.prems by (simp add: set_insertBucket)
  qed
qed

lemma sorted_prioritizeIntents: "sorted_wrt bucketBefore (prioritizeIntents bs)"
  unfolding prioritizeIntents_def by (induction bs) (simp_all add: sorted_insertBucket)

lemma prioritizeIntents_map:
  "\<exists>order'. prioritizeIntents (map f order) = map f order'
            \<and> set order' = set order \<and> length order' = length order
            \<and> (\<forall>g. sum_list (map g order') = sum_list (map (g :: 'a \<Rightarrow> int) order))"
proof (induction order)
  case Nil
  then show ?case by (simp add: prioritizeIntents_def)
next
  case (Cons a order)
  then obtain o' where o': "prioritizeIntents (map f order) = map f o'"
    "set o' = set order" "length o' = length order"
    "\<forall>g. sum_list (map g o') = sum_list (map (g :: 'a \<Rightarrow> int) order)"
    by blast
  obtain ys zs where s: "map f o' = ys @ zs" "insertBucket (f a) (map f o') = ys @ f a # zs"
    using insertBucket_split by blast
  from s(1) obtain us vs where uv: "o' = us @ vs" "ys = map f us" "zs = map f vs"
    by (auto simp: map_eq_append_conv)
  have "prioritizeIntents (map f (a # order)) = map f (us @ a # vs)"
    using s(2) uv by (simp add: prioritizeIntents_def o'(1) [unfolded prioritizeIntents_def])
  moreover have "set (us @ a # vs) = set (a # order)"
    using o'(2) uv(1) by auto
  moreover have "length (us @ a # vs) = length (a # order)"
    using o'(3) uv(1) by auto
  moreover have "\<forall>g. sum_list (map g (us @ a # vs)) = sum_list (map (g :: 'a \<Rightarrow> int) (a # order))"
    using o'(4) uv(1) by (auto simp: algebra_simps)
  ultimately show ?case by blast
qed


lemma foldl_duration:
  "foldl (\<lambda>total bucket. total + h bucket) a bs = a + sum_list (map h bs)"
  for a :: int
  by (induction bs arbitrary: a) simp_all

text \<open>The plan, apart from the numbers of the duration table: one bucket for each intent
  that occurs, holding the items of that intent in their order and the mean of their
  confidences; the buckets in ascending priority, equal priorities in descending
  confidence; \<open>multiIntent\<close> exactly for more than one intent; and the duration as the
  sum, over the buckets, of the minutes that \<open>PROCESSING_DURATION[intent] || 1\<close> gives
  times the number of items.\<close>

lemma createProcessingPlan_structure:
  "\<exists>order.
      buckets (createProcessingPlan ar its) = map (bucketOf ar its) order
      \<and> distinct order \<and> set order = intent ` set its
      \<and> sorted_wrt bucketBefore (buckets (createProcessingPlan ar its))
      \<and> processingOrder (createProcessingPlan ar its) = order
      \<and> multiIntent (createProcessingPlan ar its) = (card (intent ` set its) > 1)
      \<and> totalItems (createProcessingPlan ar its) = length its
      \<and> estimatedDuration (createProcessingPlan ar its)
          = sum_list (map (\<lambda>i. or_default (PROCESSING_DURATION i) 1
                                 * int (length (filter (\<lambda>item. intent item = i) its))) order)"
proof -
  obtain order0 where o0: "splitByIntent ar its = map (bucketOf ar its) order0"
    "distinct order0" "set order0 = intent ` set its"
    using splitByIntent_buckets by blast
  obtain order where o: "prioritizeIntents (map (bucketOf ar its) order0) = map (bucketOf ar its) order"
    "set order = set order0" "length order = length order0"
    "\<forall>g. sum_list (map g order) = sum_list (map (g :: IntentType \<Rightarrow> int) order0)"
    using prioritizeIntents_map [of "bucketOf ar its" order0] by blast
  have d: "distinct order"
    using o(2,3) o0(2) by (metis card_distinct distinct_card)
  have len: "length (splitByIntent ar its) = card (intent ` set its)"
    using o0 by (metis distinct_card length_map)
  have b: "buckets (createProcessingPlan ar its) = map (bucketOf ar its) order"
    by (simp add: createProcessingPlan_def Let_def o0(1) o(1))
  have s: "sorted_wrt bucketBefore (buckets (createProcessingPlan ar its))"
    by (simp add: createProcessingPlan_def Let_def sorted_prioritizeIntents)
  have p: "processingOrder (createProcessingPlan ar its) = order"
    by (simp add: createProcessingPlan_def Let_def o0(1) o(1) bucketOf_def comp_def)
  have m: "multiIntent (createProcessingPlan ar its) = (card (intent ` set its) > 1)"
    by (simp add: createProcessingPlan_def Let_def len)
  have t: "totalItems (createProcessingPlan ar its) = length its"
    by (simp add: createProcessingPlan_def Let_def)
  have e: "estimatedDuration (createProcessingPlan ar its)
          = sum_list (map (\<lambda>i. or_default (PROCESSING_DURATION i) 1
                                 * int (length (filter (\<lambda>item. intent item = i) its))) order)"
    by (simp add: createProcessingPlan_def Let_def o0(1) o(1) foldl_duration bucketOf_def comp_def)
  show ?thesis using b d o(2) o0(3) s p m t e by blast
qed

lemma createProcessingPlan_empty:
  "createProcessingPlan ar [] =
     \<lparr> buckets = [], totalItems = 0, multiIntent = False, processingOrder = [],
       estimatedDuration = 0 \<rparr>"
  by (simp add: createProcessingPlan_def splitByIntent_def prioritizeIntents_def)

text \<open>The default replaces the table value only for \<open>notfall\<close>.\<close>

lemma or_default_duration:
  "i \<noteq> notfall \<Longrightarrow> PROCESSING_DURATION i = Some (or_default (PROCESSING_DURATION i) 1)"
  by (cases i) (simp_all add: or_default_def)

text \<open>
  C9. The estimated duration is meant to be the sum over the buckets of the table value
  times the number of items. The table gives 0 minutes to \<open>notfall\<close>, and the plan of
  a single \<open>notfall\<close> item has the estimated duration 1: the default of
  \<open>PROCESSING_DURATION[intent] || 1\<close> replaces the entry 0.
\<close>

theorem createProcessingPlan_notfall_duration:
  "PROCESSING_DURATION notfall = Some 0
   \<and> estimatedDuration (createProcessingPlan ar [lowEmergencyItem]) = 1"
  by (simp add: createProcessingPlan_def splitByIntent_def splitStep_def pushItem_def
      newBucket_def prioritizeIntents_def or_default_def lowEmergencyItem_def mkItem_def
      Let_def)

section \<open>Business hours\<close>

















section \<open>Validation of the model output\<close>

lemma zNumber01_Some: "zNumber01 v = Some c \<Longrightarrow> v = Some (JNumber c) \<and> 0 \<le> c \<and> c \<le> 1"
  by (cases v rule: zNumber01.cases) (auto split: if_splits)

lemma IntentItem_parse_confidence:
  assumes "IntentItem_parse e = Some item"
  shows "property ''confidence'' e = Some (JNumber (confidence item))
         \<and> 0 \<le> confidence item \<and> confidence item \<le> 1"
proof -
  obtain fs where fs: "e = JObject fs"
    using assms by (cases e) (simp_all add: IntentItem_parse_def)
  from assms obtain c where c: "zNumber01 (map_of fs ''confidence'') = Some c" "confidence item = c"
    unfolding IntentItem_parse_def fs by (auto split: bind_splits)
  then show ?thesis using zNumber01_Some [OF c(1)] by (simp add: fs)
qed

lemma all_parsed_Some:
  "all_parsed xs = Some ys \<Longrightarrow> xs = map Some ys"
proof (induction xs arbitrary: ys rule: all_parsed.induct)
  case 1
  then show ?case by simp
next
  case (2 uu)
  then show ?case by simp
next
  case (3 x rest)
  then show ?case by auto
qed

lemma Items_parse_Some:
  assumes "Items_parse v = Some its"
  shows "\<exists>elems. v = Some (JArray elems) \<and> map IntentItem_parse elems = map Some its \<and> its \<noteq> []"
  using assms
  by (auto simp: Items_parse_def split: option.splits json.splits if_splits dest: all_parsed_Some)

lemma Items_parse_confidences:
  assumes "Items_parse v = Some its"
  shows "\<forall>item \<in> set its. 0 \<le> confidence item \<and> confidence item \<le> 1"
proof
  fix item assume "item \<in> set its"
  obtain elems where e: "map IntentItem_parse elems = map Some its"
    using Items_parse_Some [OF assms] by blast
  then have "Some item \<in> set (map IntentItem_parse elems)"
    using \<open>item \<in> set its\<close> by simp
  then obtain el where "IntentItem_parse el = Some item" by auto
  then show "0 \<le> confidence item \<and> confidence item \<le> 1"
    using IntentItem_parse_confidence by blast
qed

lemma Overall_parse_confidence:
  assumes "Overall_parse v = Some ov"
  shows "\<exists>w. v = Some w \<and> property ''max_confidence'' w = Some (JNumber (max_confidence ov))
         \<and> 0 \<le> max_confidence ov \<and> max_confidence ov \<le> 1"
proof -
  obtain fs where fs: "v = Some (JObject fs)"
    using assms by (auto simp: Overall_parse_def split: option.splits json.splits)
  from assms obtain c where c: "zNumber01 (map_of fs ''max_confidence'') = Some c" "max_confidence ov = c"
    unfolding Overall_parse_def fs by (auto split: bind_splits)
  then show ?thesis using zNumber01_Some [OF c(1)] by (simp add: fs)
qed

lemma IntentResponseSchema_parse_Some:
  assumes "IntentResponseSchema_parse obj = Some r"
  shows "Items_parse (property ''items'' obj) = Some (items r)
         \<and> Overall_parse (property ''overall'' obj) = Some (overall r)"
proof -
  obtain fs where fs: "obj = JObject fs"
    using assms by (cases obj) (simp_all add: IntentResponseSchema_parse_def)
  show ?thesis
    using assms unfolding IntentResponseSchema_parse_def fs by (auto split: bind_splits)
qed

lemma schema_gives_valid:
  assumes "IntentResponseSchema_parse obj = Some r"
  shows "schemaValid r"
proof -
  have i: "Items_parse (property ''items'' obj) = Some (items r)"
    and o: "Overall_parse (property ''overall'' obj) = Some (overall r)"
    using IntentResponseSchema_parse_Some [OF assms] by simp_all
  have "items r \<noteq> []" using Items_parse_Some [OF i] by blast
  then have "length (items r) \<ge> 1" by (cases "items r") simp_all
  then show ?thesis
    using Items_parse_confidences [OF i] Overall_parse_confidence [OF o]
    by (auto simp: schemaValid_def list_all_iff)
qed

lemma schema_rejects_confidence:
  assumes "c \<in> set (declaredConfidences obj)" and "c < 0 \<or> 1 < c"
  shows "IntentResponseSchema_parse obj = None"
proof (rule ccontr)
  assume "IntentResponseSchema_parse obj \<noteq> None"
  then obtain r where r: "IntentResponseSchema_parse obj = Some r" by auto
  have i: "Items_parse (property ''items'' obj) = Some (items r)"
    and o: "Overall_parse (property ''overall'' obj) = Some (overall r)"
    using IntentResponseSchema_parse_Some [OF r] by simp_all
  obtain elems where e: "property ''items'' obj = Some (JArray elems)"
    "map IntentItem_parse elems = map Some (items r)"
    using Items_parse_Some [OF i] by blast
  obtain w where w: "property ''overall'' obj = Some w"
    "property ''max_confidence'' w = Some (JNumber (max_confidence (overall r)))"
    using Overall_parse_confidence [OF o] by blast
  have inrange: "0 \<le> x \<and> x \<le> 1" if "x \<in> set (declaredConfidences obj)" for x
  proof -
    from that consider
      (item) el where "el \<in> set elems" "x \<in> set (numberOf (property ''confidence'' el))"
      | (top) "x = max_confidence (overall r)"
      by (auto simp: declaredConfidences_def e w numberOf_def)
    then show ?thesis
    proof cases
      case item
      then have "IntentItem_parse el \<in> set (map Some (items r))"
        using e(2) by (metis imageI list.set_map)
      then obtain it where it: "IntentItem_parse el = Some it" by auto
      then show ?thesis
        using IntentItem_parse_confidence [OF it] item(2) by (simp add: numberOf_def)
    next
      case top
      then show ?thesis using Overall_parse_confidence [OF o] by auto
    qed
  qed
  show False using inrange [OF assms(1)] assms(2) by linarith
qed

lemma length_remdups_card: "length (remdups xs) = card (set xs)"
  by (simp add: length_remdups_card_conv)

lemma validatePlausibility_warnings:
  assumes "top_intent (overall r) \<in> intent ` set (items r)"
  shows "\<exists>warnings. validatePlausibility ar r = Inr warnings
     \<and> (MaxConfidenceMismatch (max_confidence (overall r)) (Max (confidence ` set (items r)))
           \<in> set warnings
          \<longleftrightarrow> \<bar>num_sub ar (max_confidence (overall r)) (Max (confidence ` set (items r)))\<bar>
                > 0.01)
     \<and> (MultiIntentMismatch (multi_intent (overall r)) (card (intent ` set (items r)) > 1)
           \<in> set warnings
          \<longleftrightarrow> multi_intent (overall r) \<noteq> (card (intent ` set (items r)) > 1))"
proof -
  obtain first rest where fr: "items r = first # rest"
    using assms by (cases "items r") auto
  have ex: "list_ex (\<lambda>item. intent item = top_intent (overall r)) (items r)"
    using assms by (auto simp: list_ex_iff)
  have mx: "math_max (confidence first) (map confidence rest) = Max (confidence ` set (items r))"
    by (simp add: math_max_Max fr)
  have cd: "length (remdups (map intent (items r))) = card (intent ` set (items r))"
    by (simp add: length_remdups_card)
  have "validatePlausibility ar r =
     Inr ((if \<bar>num_sub ar (max_confidence (overall r)) (Max (confidence ` set (items r)))\<bar>
               > 0.01
           then [MaxConfidenceMismatch (max_confidence (overall r))
                   (Max (confidence ` set (items r)))]
           else [])
          @ (if multi_intent (overall r) \<noteq> (card (intent ` set (items r)) > 1)
             then [MultiIntentMismatch (multi_intent (overall r))
                     (card (intent ` set (items r)) > 1)]
             else []))"
    unfolding validatePlausibility_def Let_def using ex mx cd by (simp add: fr)
  then show ?thesis by auto
qed

lemma validatePlausibility_throws:
  assumes "top_intent (overall r) \<notin> intent ` set (items r)"
  shows "validatePlausibility ar r = Inl (topIntentMissing r)"
proof -
  have nex: "\<not> list_ex (\<lambda>item. intent item = top_intent (overall r)) (items r)"
    using assms unfolding list_ex_iff by (metis image_eqI)
  show ?thesis
  proof (cases "items r")
    case Nil
    then show ?thesis by (simp add: validatePlausibility_def)
  next
    case (Cons first rest)
    then show ?thesis
      using nex by (simp add: validatePlausibility_def)
  qed
qed

lemma validatePlausibility_throws_iff:
  "(\<exists>thrown. validatePlausibility ar r = Inl thrown)
     \<longleftrightarrow> top_intent (overall r) \<notin> intent ` set (items r)"
proof (cases "top_intent (overall r) \<in> intent ` set (items r)")
  case True
  then show ?thesis using validatePlausibility_warnings [of r ar] by auto
next
  case False
  then show ?thesis using validatePlausibility_throws [of r ar] by simp
qed

lemma parseIntentJSON_catch_ErrorObject:
  "parseIntentJSON_catch (ErrorObject message) = ErrorObject (invalidPrefix @ message)"
  by (simp add: parseIntentJSON_catch_def)

lemma parseIntentJSON_Inr:
  assumes "parseIntentJSON ext raw = Some (Inr r)"
  shows "\<exists>obj. parsedObject ext raw = Some (Inr obj) \<and> IntentResponseSchema_parse obj = Some r
           \<and> top_intent (overall r) \<in> intent ` set (items r)"
proof -
  from assms have t: "parseIntentJSON_try ext raw = Some (Inr r)"
    by (auto simp: parseIntentJSON_def split: option.splits sum.splits)
  then obtain obj where o: "parsedObject ext raw = Some (Inr obj)"
    by (auto simp: parseIntentJSON_try_def split: option.splits sum.splits)
  from t o have s: "IntentResponseSchema_parse obj = Some r"
    and "\<exists>ws. validatePlausibility (arithmetic ext) r = Inr ws"
    by (auto simp: parseIntentJSON_try_def split: sum.splits option.splits)
  then have "top_intent (overall r) \<in> intent ` set (items r)"
    using validatePlausibility_throws_iff [of "arithmetic ext" r] by auto
  then show ?thesis using o s by blast
qed

lemma parseIntentJSON_accepts:
  assumes "parsedObject ext raw = Some (Inr obj)" and "IntentResponseSchema_parse obj = Some v"
    and "top_intent (overall v) \<in> intent ` set (items v)"
  shows "parseIntentJSON ext raw = Some (Inr v)"
proof -
  obtain ws where "validatePlausibility (arithmetic ext) v = Inr ws"
    using validatePlausibility_warnings [OF assms(3)] by blast
  then show ?thesis
    using assms(1,2) by (simp add: parseIntentJSON_def parseIntentJSON_try_def)
qed

lemma parseIntentJSON_rejects_top_intent:
  assumes "parsedObject ext raw = Some (Inr obj)" and "IntentResponseSchema_parse obj = Some v"
    and "top_intent (overall v) \<notin> intent ` set (items v)"
  shows "\<exists>message. parseIntentJSON ext raw = Some (Inl (ErrorObject (invalidPrefix @ message)))"
  using assms validatePlausibility_throws [OF assms(3), of "arithmetic ext"]
  by (simp add: parseIntentJSON_def parseIntentJSON_try_def topIntentMissing_def
      parseIntentJSON_catch_ErrorObject)

lemma parseIntentJSON_rejects_schema:
  assumes "parsedObject ext raw = Some (Inr obj)" and "IntentResponseSchema_parse obj = None"
  shows "\<exists>message. parseIntentJSON ext raw = Some (Inl (ErrorObject (invalidPrefix @ message)))"
  using assms
  by (simp add: parseIntentJSON_def parseIntentJSON_try_def parseIntentJSON_catch_ErrorObject)

text \<open>
  C4. A response returned by \<open>parseIntentJSON\<close> has at least one item, every item has a
  confidence in [0,1], and the top intent is the intent of some item. The function throws
  its classified error when the parsed object passes the schema and its top intent is the
  intent of no item, and when the parsed object declares a confidence outside [0,1]. When
  the parsed object passes the schema and the top intent occurs, the validated response is
  returned as it is, whatever the declared maximal confidence and the declared
  \<open>multi_intent\<close> are: a difference of the declared and the actual maximal confidence that
  the runtime computes above 0.01, and a declared \<open>multi_intent\<close> that is not the actual one,
  only write a warning.
\<close>

theorem parseIntentJSON_validation:
  "(parseIntentJSON ext raw = Some (Inr r) \<longrightarrow>
      items r \<noteq> []
      \<and> (\<forall>item \<in> set (items r). 0 \<le> confidence item \<and> confidence item \<le> 1)
      \<and> top_intent (overall r) \<in> intent ` set (items r))
   \<and> (parsedObject ext raw = Some (Inr obj) \<and> IntentResponseSchema_parse obj = Some v
        \<and> top_intent (overall v) \<notin> intent ` set (items v)
        \<longrightarrow> (\<exists>message. parseIntentJSON ext raw
                          = Some (Inl (ErrorObject (invalidPrefix @ message)))))
   \<and> (parsedObject ext raw = Some (Inr obj)
        \<and> (\<exists>c \<in> set (declaredConfidences obj). c < 0 \<or> 1 < c)
        \<longrightarrow> (\<exists>message. parseIntentJSON ext raw
                          = Some (Inl (ErrorObject (invalidPrefix @ message)))))
   \<and> (parsedObject ext raw = Some (Inr obj) \<and> IntentResponseSchema_parse obj = Some v
        \<and> top_intent (overall v) \<in> intent ` set (items v)
        \<longrightarrow> parseIntentJSON ext raw = Some (Inr v)
            \<and> (\<exists>warnings. validatePlausibility (arithmetic ext) v = Inr warnings
                 \<and> (MaxConfidenceMismatch (max_confidence (overall v))
                        (Max (confidence ` set (items v))) \<in> set warnings
                      \<longleftrightarrow> \<bar>num_sub (arithmetic ext) (max_confidence (overall v))
                               (Max (confidence ` set (items v)))\<bar> > 0.01)
                 \<and> (MultiIntentMismatch (multi_intent (overall v))
                        (card (intent ` set (items v)) > 1) \<in> set warnings
                      \<longleftrightarrow> multi_intent (overall v) \<noteq> (card (intent ` set (items v)) > 1))))"
proof -
  have 1: "parseIntentJSON ext raw = Some (Inr r) \<longrightarrow>
      items r \<noteq> []
      \<and> (\<forall>item \<in> set (items r). 0 \<le> confidence item \<and> confidence item \<le> 1)
      \<and> top_intent (overall r) \<in> intent ` set (items r)"
  proof
    assume "parseIntentJSON ext raw = Some (Inr r)"
    then obtain o' where s: "IntentResponseSchema_parse o' = Some r"
      and t: "top_intent (overall r) \<in> intent ` set (items r)"
      using parseIntentJSON_Inr by blast
    have "schemaValid r" using schema_gives_valid [OF s] .
    then show "items r \<noteq> []
      \<and> (\<forall>item \<in> set (items r). 0 \<le> confidence item \<and> confidence item \<le> 1)
      \<and> top_intent (overall r) \<in> intent ` set (items r)"
      using t by (auto simp: schemaValid_def list_all_iff)
  qed
  have 2: "parsedObject ext raw = Some (Inr obj) \<and> IntentResponseSchema_parse obj = Some v
        \<and> top_intent (overall v) \<notin> intent ` set (items v)
        \<longrightarrow> (\<exists>message. parseIntentJSON ext raw
                          = Some (Inl (ErrorObject (invalidPrefix @ message))))"
    using parseIntentJSON_rejects_top_intent by blast
  have 3: "parsedObject ext raw = Some (Inr obj)
        \<and> (\<exists>c \<in> set (declaredConfidences obj). c < 0 \<or> 1 < c)
        \<longrightarrow> (\<exists>message. parseIntentJSON ext raw
                          = Some (Inl (ErrorObject (invalidPrefix @ message))))"
    using parseIntentJSON_rejects_schema schema_rejects_confidence by blast
  have 4: "parsedObject ext raw = Some (Inr obj) \<and> IntentResponseSchema_parse obj = Some v
        \<and> top_intent (overall v) \<in> intent ` set (items v)
        \<longrightarrow> parseIntentJSON ext raw = Some (Inr v)
            \<and> (\<exists>warnings. validatePlausibility (arithmetic ext) v = Inr warnings
                 \<and> (MaxConfidenceMismatch (max_confidence (overall v))
                        (Max (confidence ` set (items v))) \<in> set warnings
                      \<longleftrightarrow> \<bar>num_sub (arithmetic ext) (max_confidence (overall v))
                               (Max (confidence ` set (items v)))\<bar> > 0.01)
                 \<and> (MultiIntentMismatch (multi_intent (overall v))
                        (card (intent ` set (items v)) > 1) \<in> set warnings
                      \<longleftrightarrow> multi_intent (overall v) \<noteq> (card (intent ` set (items v)) > 1)))"
    using parseIntentJSON_accepts validatePlausibility_warnings by blast
  show ?thesis using 1 2 3 4 by blast
qed

theorem parseIntentJSON_validation_witness:
  "parseIntentJSON exampleLibraries (responseText ''0.9'' ''termin_anfragen'' ''0.5'')
     = Some (Inr (appointmentResponse 0.9 termin_anfragen 0.5))
   \<and> (\<exists>message. parseIntentJSON exampleLibraries (responseText ''0.9'' ''notfall'' ''0.9'')
                   = Some (Inl (ErrorObject (invalidPrefix @ message))))
   \<and> (\<exists>message. parseIntentJSON exampleLibraries (responseText ''1.5'' ''termin_anfragen'' ''0.9'')
                   = Some (Inl (ErrorObject (invalidPrefix @ message))))"
proof -
  have a1: "parsedObject exampleLibraries (responseText ''0.9'' ''termin_anfragen'' ''0.5'')
              = Some (Inr (responseObject 0.9 ''termin_anfragen'' 0.5))"
    by code_simp
  have a2: "IntentResponseSchema_parse (responseObject 0.9 ''termin_anfragen'' 0.5)
              = Some (appointmentResponse 0.9 termin_anfragen 0.5)"
    by code_simp
  have a3: "top_intent (overall (appointmentResponse 0.9 termin_anfragen 0.5))
              \<in> intent ` set (items (appointmentResponse 0.9 termin_anfragen 0.5))"
    by (simp add: appointmentResponse_def appointmentTomorrow_def)
  have a: "parseIntentJSON exampleLibraries (responseText ''0.9'' ''termin_anfragen'' ''0.5'')
             = Some (Inr (appointmentResponse 0.9 termin_anfragen 0.5))"
    using parseIntentJSON_validation [of exampleLibraries
        "responseText ''0.9'' ''termin_anfragen'' ''0.5''"
        "appointmentResponse 0.9 termin_anfragen 0.5"
        "responseObject 0.9 ''termin_anfragen'' 0.5"
        "appointmentResponse 0.9 termin_anfragen 0.5"] a1 a2 a3
    by (simp only: simp_thms)
  have b1: "parsedObject exampleLibraries (responseText ''0.9'' ''notfall'' ''0.9'')
              = Some (Inr (responseObject 0.9 ''notfall'' 0.9))"
    by code_simp
  have b2: "IntentResponseSchema_parse (responseObject 0.9 ''notfall'' 0.9)
              = Some (appointmentResponse 0.9 notfall 0.9)"
    by code_simp
  have b3: "top_intent (overall (appointmentResponse 0.9 notfall 0.9))
              \<notin> intent ` set (items (appointmentResponse 0.9 notfall 0.9))"
    by (simp add: appointmentResponse_def appointmentTomorrow_def)
  have b: "\<exists>message. parseIntentJSON exampleLibraries (responseText ''0.9'' ''notfall'' ''0.9'')
                   = Some (Inl (ErrorObject (invalidPrefix @ message)))"
    using parseIntentJSON_validation [of exampleLibraries
        "responseText ''0.9'' ''notfall'' ''0.9''"
        "appointmentResponse 0.9 notfall 0.9"
        "responseObject 0.9 ''notfall'' 0.9"
        "appointmentResponse 0.9 notfall 0.9"] b1 b2 b3
    by (simp only: simp_thms)
  have c1: "parsedObject exampleLibraries (responseText ''1.5'' ''termin_anfragen'' ''0.9'')
              = Some (Inr (responseObject 1.5 ''termin_anfragen'' 0.9))"
    by code_simp
  have "declaredConfidences (responseObject 1.5 ''termin_anfragen'' 0.9) = [1.5, 0.9]"
    by code_simp
  then have c2: "\<exists>c \<in> set (declaredConfidences (responseObject 1.5 ''termin_anfragen'' 0.9)).
                   c < 0 \<or> 1 < c"
    by simp
  have c: "\<exists>message. parseIntentJSON exampleLibraries (responseText ''1.5'' ''termin_anfragen'' ''0.9'')
                   = Some (Inl (ErrorObject (invalidPrefix @ message)))"
    using parseIntentJSON_validation [of exampleLibraries
        "responseText ''1.5'' ''termin_anfragen'' ''0.9''"
        "appointmentResponse 0.9 termin_anfragen 0.5"
        "responseObject 1.5 ''termin_anfragen'' 0.9"
        "appointmentResponse 0.9 termin_anfragen 0.5"] c1 c2
    by (simp only: simp_thms)
  show ?thesis using a b c by (simp only: simp_thms)
qed

text \<open>What the function does when a library does not come back, and when \<open>JSON.parse\<close>
  throws a value that has no string form: it does not return, and the error of the
  conversion leaves the \<open>catch\<close> block without the prefix.\<close>

lemma parseIntentJSON_no_return:
  "jsonrepair ext (extractJSON raw) = None \<Longrightarrow> parseIntentJSON ext raw = None"
  by (simp add: parseIntentJSON_def parseIntentJSON_try_def parsedObject_def)

lemma parseIntentJSON_conversion_error:
  assumes "parsedObject ext raw = Some (Inl Unprintable)"
  shows "parseIntentJSON ext raw = Some (Inl conversionError)"
  using assms
  by (simp add: parseIntentJSON_def parseIntentJSON_try_def parseIntentJSON_catch_def)

lemma parsedObject_returns:
  assumes "\<forall>s. jsonrepair ext s \<noteq> None" and "\<forall>s. JSON_parse ext s \<noteq> None"
    and "\<forall>s thrown. JSON_parse ext s = Some (Inl thrown) \<longrightarrow> thrown \<noteq> Unprintable"
  shows "(\<exists>obj. parsedObject ext raw = Some (Inr obj))
         \<or> (\<exists>thrown. parsedObject ext raw = Some (Inl thrown) \<and> thrown \<noteq> Unprintable)"
proof -
  obtain res where r: "jsonrepair ext (extractJSON raw) = Some res"
    using assms(1) [rule_format, of "extractJSON raw"] by auto
  have "\<exists>repaired. parsedObject ext raw = JSON_parse ext repaired"
    by (cases res) (auto simp: parsedObject_def Let_def r)
  then obtain repaired where p: "parsedObject ext raw = JSON_parse ext repaired"
    by blast
  obtain out where o: "JSON_parse ext repaired = Some out"
    using assms(2) [rule_format, of repaired] by auto
  show ?thesis
  proof (cases out)
    case (Inl thrown)
    then show ?thesis using p o assms(3) by auto
  next
    case (Inr obj)
    then show ?thesis using p o by auto
  qed
qed

lemma parseIntentJSON_catch_printable:
  "thrown \<noteq> Unprintable \<Longrightarrow> \<exists>message. parseIntentJSON_catch thrown = ErrorObject (invalidPrefix @ message)"
  by (cases thrown) (simp_all add: parseIntentJSON_catch_def)

lemma parseIntentJSON_outcome:
  assumes "parsedObject ext raw = Some out" and "out \<noteq> Inl Unprintable"
  shows "(\<exists>validated. parseIntentJSON ext raw = Some (Inr validated) \<and> schemaValid validated)
       \<or> (\<exists>message. parseIntentJSON ext raw = Some (Inl (ErrorObject (invalidPrefix @ message))))"
proof (cases out)
  case (Inr obj)
  then have obj: "parsedObject ext raw = Some (Inr obj)" using assms(1) by simp
  show ?thesis
  proof (cases "IntentResponseSchema_parse obj")
    case None
    then show ?thesis using parseIntentJSON_rejects_schema [OF obj] by blast
  next
    case (Some v)
    show ?thesis
    proof (cases "top_intent (overall v) \<in> intent ` set (items v)")
      case True
      have "parseIntentJSON ext raw = Some (Inr v)"
        using parseIntentJSON_accepts [OF obj Some True] .
      moreover have "schemaValid v" using schema_gives_valid [OF Some] .
      ultimately show ?thesis by blast
    next
      case False
      then show ?thesis using parseIntentJSON_rejects_top_intent [OF obj Some] by blast
    qed
  qed
next
  case (Inl thrown)
  then have "thrown \<noteq> Unprintable" using assms(2) by simp
  then obtain message where "parseIntentJSON_catch thrown = ErrorObject (invalidPrefix @ message)"
    using parseIntentJSON_catch_printable by blast
  then show ?thesis
    using assms(1) Inl by (simp add: parseIntentJSON_def parseIntentJSON_try_def)
qed



section \<open>The classification pipeline\<close>

lemma classifyEmail_Rejected:
  "classifyEmail env email (Rejected thrown) opts =
     (case messageOf thrown of
        Inl conversion \<Rightarrow> Some (Inl conversion)
      | Inr errorMessage \<Rightarrow> Some (Inr (failureResult env email errorMessage [])))"
  by (simp add: classifyEmail_def classifyEmail_try_def)

lemma classifyEmail_TimedOut:
  "classifyEmail env email TimedOut opts
     = Some (Inr (failureResult env email ''LLM timeout'' []))"
  by (simp add: classifyEmail_def classifyEmail_try_def)

lemma classifyEmail_no_fallback:
  assumes "parseIntentJSON (libraries env) (response res) = Some (Inl (ErrorObject message))"
    and "\<not> enableFallback opts"
  shows "classifyEmail env email (Resolved res) opts
           = Some (Inr (failureResult env email message []))"
  using assms by (simp add: classifyEmail_def classifyEmail_try_def parseOrFallback_def)

lemma classifyEmail_success:
  assumes "parseIntentJSON (libraries env) (response res) = Some parseOutcome"
    and "parseOrFallback opts parseOutcome = Inr (p, perr, ws)"
  shows "\<exists>result. classifyEmail env email (Resolved res) opts = Some (Inr result)
           \<and> success result \<and> error result = None \<and> parsed result = p
           \<and> decision result = gate (gateConfig env) (normalized result) (Some email)"
  using assms
  by (simp add: classifyEmail_def classifyEmail_try_def Let_def split: prod.splits)

lemma parseOrFallback_cases:
  "(\<exists>p. outcome = Inr p \<and> parseOrFallback opts outcome = Inr (p, None, []))
   \<or> (\<exists>message. outcome = Inl (ErrorObject message) \<and> enableFallback opts
         \<and> parseOrFallback opts outcome
             = Inr (createEmptyResponse (''Parsing-Fehler: '' @ message), Some message,
                    [''JSON-Parsing fehlgeschlagen, verwende Fallback'']))
   \<or> (\<exists>message. outcome = Inl (ErrorObject message) \<and> \<not> enableFallback opts
         \<and> parseOrFallback opts outcome = Inl (ErrorObject message))
   \<or> (\<exists>thrown. outcome = Inl thrown \<and> (\<forall>message. thrown \<noteq> ErrorObject message))"
proof (cases outcome)
  case (Inr p)
  then show ?thesis by (simp add: parseOrFallback_def)
next
  case (Inl thrown)
  then show ?thesis by (cases thrown) (simp_all add: parseOrFallback_def)
qed

lemma failureResult_fields:
  "success (failureResult env email errorMessage ws) = False"
  "error (failureResult env email errorMessage ws) = Some errorMessage"
  "decision (failureResult env email errorMessage ws)
     = ESCALATE [] ''Kritischer Fehler bei der Klassifikation'' 0"
  "level (complexity (failureResult env email errorMessage ws)) = level_critical"
  "score (complexity (failureResult env email errorMessage ws)) = 1"
  by (simp_all add: failureResult_def)

text \<open>What holds of the pipeline: when the libraries come back, \<open>JSON.parse\<close> throws only
  errors with a message, and the provider resolves, times out or rejects with a value that
  has a message or a string form, the promise is fulfilled. The result is then a
  successful one with the decision of the gate, or the failure result with the message of
  the caught value; the latter exactly for a timeout, a rejection of the provider and a
  parse error with the fallback switched off.\<close>

lemma classifyEmail_settles:
  assumes "\<forall>s. jsonrepair (libraries env) s \<noteq> None"
    and "\<forall>s. JSON_parse (libraries env) s \<noteq> None"
    and "\<forall>s thrown. JSON_parse (libraries env) s = Some (Inl thrown) \<longrightarrow> thrown \<noteq> Unprintable"
    and "outcome \<noteq> Rejected Unprintable"
  shows "(\<exists>result. classifyEmail env email outcome opts = Some (Inr result)
            \<and> success result \<and> error result = None
            \<and> decision result = gate (gateConfig env) (normalized result) (Some email))
       \<or> (\<exists>errorMessage. classifyEmail env email outcome opts
                             = Some (Inr (failureResult env email errorMessage []))
            \<and> (outcome = TimedOut \<or> (\<exists>thrown. outcome = Rejected thrown)
                \<or> (\<exists>res. outcome = Resolved res \<and> \<not> enableFallback opts
                      \<and> parseIntentJSON (libraries env) (response res)
                          = Some (Inl (ErrorObject errorMessage)))))"
proof (cases outcome)
  case (Rejected thrown)
  then have "thrown \<noteq> Unprintable" using assms(4) by simp
  then obtain m where "messageOf thrown = Inr m" by (cases thrown) simp_all
  then show ?thesis
    unfolding Rejected classifyEmail_Rejected by auto
next
  case TimedOut
  show ?thesis
    unfolding TimedOut classifyEmail_TimedOut by auto
next
  case (Resolved res)
  consider (ok) validated where
      "parseIntentJSON (libraries env) (response res) = Some (Inr validated)"
    | (err) message where
      "parseIntentJSON (libraries env) (response res)
         = Some (Inl (ErrorObject (invalidPrefix @ message)))"
  proof -
    obtain out where o: "parsedObject (libraries env) (response res) = Some out"
      and p: "out \<noteq> Inl Unprintable"
      using parsedObject_returns [OF assms(1-3), of "response res"] by auto
    show ?thesis
      using parseIntentJSON_outcome [OF o p] that by blast
  qed
  then show ?thesis
  proof cases
    case ok
    have "parseOrFallback opts (Inr validated) = Inr (validated, None, [])"
      by (simp add: parseOrFallback_def)
    then show ?thesis
      using classifyEmail_success [OF ok, of opts validated None "[]" email] Resolved by blast
  next
    case err
    show ?thesis
    proof (cases "enableFallback opts")
      case True
      then have "parseOrFallback opts (Inl (ErrorObject (invalidPrefix @ message)))
          = Inr (createEmptyResponse (''Parsing-Fehler: '' @ invalidPrefix @ message),
                 Some (invalidPrefix @ message),
                 [''JSON-Parsing fehlgeschlagen, verwende Fallback''])"
        by (simp add: parseOrFallback_def)
      then show ?thesis
        using classifyEmail_success [OF err, of opts _ _ _ email] Resolved by blast
    next
      case False
      then show ?thesis
        using classifyEmail_no_fallback [OF err False, of email] err Resolved by blast
    qed
  qed
qed

text \<open>
  C5. \<open>classifyEmail\<close> is meant never to propagate an exception and to report every failure
  with \<open>success = false\<close> and a non-empty error message. When the provider rejects with a
  value that has no string form, such as \<open>Object.create(null)\<close>, the expression
  \<open>String(error)\<close> of the \<open>catch\<close> block throws, and the promise of \<open>classifyEmail\<close> is
  rejected with that \<open>TypeError\<close>. When the provider rejects with an error of empty
  message, the failure result has the empty error message, which
  \<open>validateClassificationResult\<close> of the same file reports as a failed result without
  error.
\<close>

theorem classifyEmail_catch_defects:
  "classifyEmail env email (Rejected Unprintable) opts = Some (Inl conversionError)
   \<and> classifyEmail env email (Rejected (ErrorObject [])) opts
       = Some (Inr (failureResult env email [] []))
   \<and> success (failureResult env email [] []) = False
   \<and> error (failureResult env email [] []) = Some []
   \<and> validateClassificationResult (failureResult env email [] []) = [FailedWithoutError]"
  by (simp add: classifyEmail_Rejected failureResult_def validateClassificationResult_def
      createEmptyResponse_def)


end
